theory Spec2Isabelle
  imports Main "HOL-Library.Sublist"
begin

section \<open>JavaScript values\<close>

text \<open>
  The handlers are untyped at the points the claims are about: a provider's
  prediction is whatever \<^verbatim>\<open>response.json()\<close> returned. A value of \<open>json\<close> is such a parsed
  value. \<open>JUndefined\<close> is what a missing property reads as. Numbers are kept as integers:
  the handlers never compute with a provider's number, they only test it for truthiness
  or render it in a message. An object is the list of its own properties.
\<close>

datatype json =
    JUndefined
  | JNull
  | JBool bool
  | JNum int
  | JStr string
  | JArr "json list"
  | JObj "(string \<times> json) list"

text \<open>\<^verbatim>\<open>if (v)\<close>, \<^verbatim>\<open>!v\<close>, \<^verbatim>\<open>a || b\<close>: JavaScript truthiness.\<close>

fun truthy :: "json \<Rightarrow> bool" where
  "truthy JUndefined = False"
| "truthy JNull = False"
| "truthy (JBool b) = b"
| "truthy (JNum n) = (n \<noteq> 0)"
| "truthy (JStr s) = (s \<noteq> [])"
| "truthy (JArr xs) = True"
| "truthy (JObj kvs) = True"

definition jsOr :: "json \<Rightarrow> json \<Rightarrow> json" where
  "jsOr a b = (if truthy a then a else b)"

text \<open>\<^verbatim>\<open>typeof v\<close>.\<close>

fun typeof :: "json \<Rightarrow> string" where
  "typeof JUndefined = ''undefined''"
| "typeof JNull = ''object''"
| "typeof (JBool b) = ''boolean''"
| "typeof (JNum n) = ''number''"
| "typeof (JStr s) = ''string''"
| "typeof (JArr xs) = ''object''"
| "typeof (JObj kvs) = ''object''"

text \<open>
  \<^verbatim>\<open>v[name]\<close> for a property name that is not an index and not a built-in of strings or
  arrays (the handlers read \<^verbatim>\<open>image\<close>, \<^verbatim>\<open>url\<close>, \<^verbatim>\<open>status\<close>, ...): an object gives its own
  property, every other value \<^verbatim>\<open>undefined\<close>. Reading a property of \<^verbatim>\<open>null\<close> throws a
  TypeError; the callers test \<open>nullish\<close> first where the source can reach that.
\<close>

fun getProp :: "json \<Rightarrow> string \<Rightarrow> json" where
  "getProp (JObj kvs) k = (case map_of kvs k of Some v \<Rightarrow> v | None \<Rightarrow> JUndefined)"
| "getProp v k = JUndefined"

fun nullish :: "json \<Rightarrow> bool" where
  "nullish JUndefined = True"
| "nullish JNull = True"
| "nullish v = False"

subsection \<open>Strings\<close>

text \<open>
  A \<open>string\<close> stands for a JavaScript string, one element per code unit, so \<open>length\<close> is
  \<^verbatim>\<open>.length\<close>, which is what the request schemas bound.
\<close>

definition startsWith :: "string \<Rightarrow> string \<Rightarrow> bool" where
  "startsWith s p = (take (length p) s = p)"

fun includesStr :: "string \<Rightarrow> string \<Rightarrow> bool" where
  "includesStr [] sub = (sub = [])"
| "includesStr (c # cs) sub = (startsWith (c # cs) sub \<or> includesStr cs sub)"

text \<open>\<^verbatim>\<open>s.split(c)\<close> for a one-character separator.\<close>

fun splitOn :: "char \<Rightarrow> string \<Rightarrow> string list" where
  "splitOn c [] = [[]]"
| "splitOn c (x # xs) =
     (if x = c then [] # splitOn c xs
      else (case splitOn c xs of
              seg # segs \<Rightarrow> (x # seg) # segs
            | [] \<Rightarrow> [[x]]))"

fun jsJoin :: "string \<Rightarrow> string list \<Rightarrow> string" where
  "jsJoin sep [] = []"
| "jsJoin sep [x] = x"
| "jsJoin sep (x # y # ys) = x @ sep @ jsJoin sep (y # ys)"

definition digitChar :: "nat \<Rightarrow> char" where
  "digitChar d = ''0123456789'' ! d"

function showNat :: "nat \<Rightarrow> string" where
  "showNat n =
     (if n < 10 then [digitChar n] else showNat (n div 10) @ [digitChar (n mod 10)])"
  by pat_completeness auto
termination
  by (relation "measure id") auto

declare showNat.simps [simp del]

text \<open>The string a template literal \<^verbatim>\<open>`${v}`\<close> puts in for a value.\<close>

fun jsString :: "json \<Rightarrow> string" where
  "jsString JUndefined = ''undefined''"
| "jsString JNull = ''null''"
| "jsString (JBool b) = (if b then ''true'' else ''false'')"
| "jsString (JNum n) = (if n < 0 then ''-'' @ showNat (nat (- n)) else showNat (nat n))"
| "jsString (JStr s) = s"
| "jsString (JArr xs) =
     jsJoin '','' (map (\<lambda>x. case x of JUndefined \<Rightarrow> [] | JNull \<Rightarrow> [] | _ \<Rightarrow> jsString x) xs)"
| "jsString (JObj kvs) = ''[object Object]''"

definition templateUndefined :: "string option \<Rightarrow> string" where
  "templateUndefined v = (case v of None \<Rightarrow> ''undefined'' | Some s \<Rightarrow> s)"

definition templateNull :: "string option \<Rightarrow> string" where
  "templateNull v = (case v of None \<Rightarrow> ''null'' | Some s \<Rightarrow> s)"

text \<open>Truthiness of a string that may be \<^verbatim>\<open>null\<close> or \<^verbatim>\<open>undefined\<close>.\<close>

definition truthyStr :: "string option \<Rightarrow> bool" where
  "truthyStr v = (case v of None \<Rightarrow> False | Some s \<Rightarrow> s \<noteq> [])"

section \<open>The world outside the handlers\<close>

text \<open>
  A row of the \<^verbatim>\<open>generations\<close> table, with the columns the handlers read and write.
  \<open>status\<close> is the stored text, \<open>progress\<close>, \<open>storage_path\<close> and \<open>error\<close> may be NULL.
\<close>

record generation =
  gen_id :: string
  user_id :: string
  gen_type :: string
  status :: string
  external_id :: json
  storage_path :: "string option"
  error :: json
  progress :: "int option"
  metadata :: json
  updated_at :: string

text \<open>
  Every call that leaves the process is logged in \<open>calls\<close>, in order: requests to a
  provider, downloads, artifact-store requests and writes to the record store.
\<close>

datatype call =
    ProviderSubmit string string string
  | ProviderPoll json
  | Download json
  | StorageUpload string string
  | StorageSign string "string option"
  | StorageRemove string string
  | StorageListBuckets
  | DbInsert string
  | DbUpdate string

record world =
  generations :: "string \<rightharpoonup> generation"
  objects :: "(string \<times> string) set"
  calls :: "call list"

definition logCall :: "call \<Rightarrow> world \<Rightarrow> world" where
  "logCall c w = w\<lparr>calls := calls w @ [c]\<rparr>"

text \<open>What the outside answers. Each handler invocation runs against one \<open>env\<close>.\<close>

datatype http_reply =
    Rejected string
  | Reply bool nat string string "string + json"

datatype upload_reply = UploadThrew "string option" | UploadError string | UploadOk

datatype sign_reply = SignThrew | SignError string | SignOk string

datatype remove_reply = RemoveThrew | RemoveError | RemoveOk

datatype 'a outcome = Threw string | Returned 'a

record env =
  supabaseUrl :: "string option"
  apiKey :: "string option"
  generateId :: "nat \<Rightarrow> string"
  dateNow :: nat
  randomString :: string
  isoTime :: "nat \<Rightarrow> string"
  storageUpload :: "string \<Rightarrow> string \<Rightarrow> upload_reply"
  storageSign :: "nat \<Rightarrow> string \<Rightarrow> string option \<Rightarrow> sign_reply"
  storageRemove :: "string \<Rightarrow> string \<Rightarrow> remove_reply"
  downloadOk :: "json \<Rightarrow> bool"
  createReply :: http_reply
  statusReply :: "nat \<Rightarrow> http_reply"
  pollLatency :: "nat \<Rightarrow> nat"
  atobError :: "string \<Rightarrow> string option"
  typeErrorMessage :: string
  notFoundMessage :: string
  dbNow :: string

section \<open>The artifact-store client\<close>

text \<open>\<^verbatim>\<open>getPublicUrl\<close>, \<^verbatim>\<open>getImageUrl\<close>, \<^verbatim>\<open>uploadImage\<close>, \<^verbatim>\<open>deleteImage\<close> of the Supabase client module.\<close>

definition getPublicUrl :: "env \<Rightarrow> string \<Rightarrow> string option \<Rightarrow> string" where
  "getPublicUrl e bucket path =
     templateUndefined (supabaseUrl e) @ ''/storage/v1/object/public/'' @ bucket @ ''/''
       @ templateNull path"

text \<open>
  \<open>n\<close> numbers the signing requests of one invocation, so that two requests for the same
  object may be answered differently (a signed URL carries a fresh token).
\<close>

definition getImageUrl :: "env \<Rightarrow> nat \<Rightarrow> string \<Rightarrow> string option \<Rightarrow> world \<Rightarrow> string \<times> world" where
  "getImageUrl e n bucket path w =
     (let w1 = logCall (StorageSign bucket path) w in
      case storageSign e n bucket path of
        SignError m \<Rightarrow> (getPublicUrl e bucket path, w1)
      | SignOk signedUrl \<Rightarrow> (signedUrl, w1)
      | SignThrew \<Rightarrow> (getPublicUrl e bucket path, w1))"

definition bucketMessage :: "string \<Rightarrow> bool" where
  "bucketMessage m =
     (m \<noteq> [] \<and> (includesStr m ''bucket'' \<or> includesStr m ''not found'' \<or> includesStr m ''does not exist''))"

text \<open>The result is \<^verbatim>\<open>error.message\<close> of the returned object, \<open>None\<close> for \<^verbatim>\<open>error: null\<close>.\<close>

definition uploadImage :: "env \<Rightarrow> string \<Rightarrow> string \<Rightarrow> world \<Rightarrow> string option \<times> world" where
  \<open>uploadImage e bucket path w =
     (let w1 = logCall (StorageUpload bucket path) w in
      case storageUpload e bucket path of
        UploadError m \<Rightarrow>
          if bucketMessage m
          then (Some (''Upload failed. Please ensure the "'' @ bucket
                      @ ''" bucket exists in your Supabase project and has proper permissions.''),
                logCall StorageListBuckets w1)
          else (Some m, w1)
      | UploadOk \<Rightarrow> (None, w1\<lparr>objects := insert (bucket, path) (objects w1)\<rparr>)
      | UploadThrew m \<Rightarrow>
          (Some (case m of Some msg \<Rightarrow> msg | None \<Rightarrow> ''Unknown error during upload''), w1))\<close>

text \<open>\<open>True\<close> when the removal request itself throws.\<close>

definition deleteImage :: "env \<Rightarrow> string \<Rightarrow> string \<Rightarrow> world \<Rightarrow> bool \<times> world" where
  "deleteImage e bucket path w =
     (let w1 = logCall (StorageRemove bucket path) w in
      case storageRemove e bucket path of
        RemoveThrew \<Rightarrow> (True, w1)
      | RemoveError \<Rightarrow> (False, w1)
      | RemoveOk \<Rightarrow> (False, w1\<lparr>objects := objects w1 - {(bucket, path)}\<rparr>))"

text \<open>\<^verbatim>\<open>generateUniqueFilename\<close>: the prefix argument is not used.\<close>

definition generateUniqueFilename :: "env \<Rightarrow> string \<Rightarrow> string \<Rightarrow> string" where
  "generateUniqueFilename e originalFilename unusedPrefix =
     (let popped = last (splitOn CHR ''.'' originalFilename);
          extension = (if popped \<noteq> [] then popped else ''jpg'')
      in showNat (dateNow e) @ ''-'' @ randomString e @ ''.'' @ extension)"

section \<open>The provider adapters' status calls\<close>

text \<open>What a status call returns: \<^verbatim>\<open>status\<close>, \<^verbatim>\<open>output\<close> and \<^verbatim>\<open>error\<close> of the prediction, as they came.\<close>

datatype poll_result = PollResult (pollStatus: json) (pollOutput: json) (pollError: json)

text \<open>
  \<^verbatim>\<open>checkPredictionStatus\<close> of the try-on adapter. \<open>Rejected\<close> is a request whose \<^verbatim>\<open>fetch\<close> rejects;
  a body that does not parse makes \<^verbatim>\<open>response.json()\<close> throw. Every throw is logged and thrown
  again.
\<close>

definition checkPredictionStatus :: "env \<Rightarrow> json \<Rightarrow> world \<Rightarrow> poll_result outcome \<times> world" where
  "checkPredictionStatus e predictionId w =
     (let w1 = logCall (ProviderPoll predictionId) w in
      case statusReply e 0 of
        Rejected m \<Rightarrow> (Threw m, w1)
      | Reply ok code statusText bodyText parsed \<Rightarrow>
          (case parsed of
             Inl m \<Rightarrow> (Threw m, w1)
           | Inr prediction \<Rightarrow>
               if nullish prediction then (Threw (typeErrorMessage e), w1)
               else if \<not> ok then
                 (Threw (''IDM-VTON API error: ''
                         @ jsString (jsOr (getProp prediction ''detail'') (JStr statusText))), w1)
               else
                 (Returned (PollResult (getProp prediction ''status'')
                                       (getProp prediction ''output'')
                                       (getProp prediction ''error'')), w1)))"

definition missingKeyMessage :: string where
  "missingKeyMessage =
     ''API Market Key is missing. Please check your .env.local file for NEXT_PUBLIC_API_MARKET_KEY.''"

text \<open>\<^verbatim>\<open>checkJobStatus\<close> of the composite adapter; its \<^verbatim>\<open>imageUrl\<close> is the prediction's \<^verbatim>\<open>output\<close>.\<close>

definition checkJobStatus :: "env \<Rightarrow> json \<Rightarrow> world \<Rightarrow> poll_result outcome \<times> world" where
  "checkJobStatus e jobId w =
     (if \<not> truthyStr (apiKey e) then (Threw missingKeyMessage, w)
      else
        let w1 = logCall (ProviderPoll jobId) w in
        case statusReply e 0 of
          Rejected m \<Rightarrow> (Threw m, w1)
        | Reply ok code statusText bodyText parsed \<Rightarrow>
            if \<not> ok then
              (case parsed of
                 Inl m \<Rightarrow>
                   (Threw (''AI Image Combiner API error: '' @ statusText @ '' - '' @ bodyText), w1)
               | Inr errorData \<Rightarrow>
                   if nullish errorData then (Threw (typeErrorMessage e), w1)
                   else
                     (Threw (''AI Image Combiner API error: ''
                             @ jsString (jsOr (jsOr (getProp errorData ''message'')
                                                    (getProp errorData ''error''))
                                              (JStr statusText))), w1))
            else
              (case parsed of
                 Inl m \<Rightarrow> (Threw m, w1)
               | Inr prediction \<Rightarrow>
                   if nullish prediction then (Threw (typeErrorMessage e), w1)
                   else
                     (Returned (PollResult (getProp prediction ''status'')
                                           (getProp prediction ''output'')
                                           (getProp prediction ''error'')), w1)))"

section \<open>The status handlers\<close>

record projection =
  resId :: string
  resStatus :: string
  resProgress :: int
  resImageUrl :: "string option"
  resError :: json
  dbgExternalId :: json
  dbgStoragePath :: "string option"
  dbgBucketName :: string
  dbgMetadata :: json
  dbgUpdatedAt :: string

datatype issue = IssueRequired | IssueInvalidType | IssueMessage string

datatype body =
    ErrorBody string "string option"
  | InvalidBody "(string \<times> issue) list"
  | StatusBody projection
  | CreatedBody string string string nat json

record response =
  httpStatus :: nat
  payload :: body

definition corsNextResponse :: "body \<Rightarrow> nat \<Rightarrow> response" where
  "corsNextResponse b code = \<lparr>httpStatus = code, payload = b\<rparr>"

subsection \<open>Finding the URL in a try-on output\<close>

fun isNonEmptyArray :: "json \<Rightarrow> bool" where
  "isNonEmptyArray (JArr (x # xs)) = True"
| "isNonEmptyArray v = False"

fun arrayFirst :: "json \<Rightarrow> json" where
  "arrayFirst (JArr (x # xs)) = x"
| "arrayFirst v = JUndefined"

definition possibleProps :: "string list" where
  "possibleProps = [''image'', ''url'', ''output'', ''result'', ''generated_image'']"

text \<open>The \<^verbatim>\<open>for (const prop of possibleProps)\<close> loop of the try-on status handler.\<close>

fun probeProps :: "json \<Rightarrow> string list \<Rightarrow> json" where
  "probeProps out [] = JNull"
| "probeProps out (prop # props) =
     (if truthy (getProp out prop) then
        (if typeof (getProp out prop) = ''string'' then getProp out prop
         else if isNonEmptyArray (getProp out prop) then arrayFirst (getProp out prop)
         else probeProps out props)
      else probeProps out props)"

text \<open>The value of \<^verbatim>\<open>imageUrl\<close> after the three cases; \<open>JNull\<close> is its initial \<^verbatim>\<open>null\<close>.\<close>

definition extractImageUrl :: "json \<Rightarrow> json" where
  "extractImageUrl out =
     (if truthy out then
        (if typeof out = ''string'' then out
         else if isNonEmptyArray out then arrayFirst out
         else if typeof out = ''object'' then probeProps out possibleProps
         else JNull)
      else JNull)"

subsection \<open>Downloading and storing the output\<close>

text \<open>
  The \<^verbatim>\<open>try { fetch; blob; uploadImage } catch\<close> block, which the two status handlers share
  word for word but for the bucket and the file-name label. It starts from
  \<^verbatim>\<open>newStatus = 'completed'\<close> and yields the new \<^verbatim>\<open>newStatus\<close>, \<^verbatim>\<open>storagePath\<close> and \<^verbatim>\<open>error\<close>.
\<close>

text \<open>The handlers' test for a bucket-related upload error.\<close>

definition bucketRelated :: "string \<Rightarrow> bool" where
  "bucketRelated m = (m \<noteq> [] \<and> (includesStr m ''bucket'' \<or> includesStr m ''does not exist''))"

definition downloadAndStore ::
  "env \<Rightarrow> string \<Rightarrow> string \<Rightarrow> string \<Rightarrow> json \<Rightarrow> string option \<Rightarrow> json \<Rightarrow> world
    \<Rightarrow> (string \<times> string option \<times> json) \<times> world" where
  \<open>downloadAndStore e bucket label generationId imageUrl storagePath0 error0 w =
     (let w1 = logCall (Download imageUrl) w in
      if \<not> downloadOk e imageUrl
      then ((''failed'', storagePath0,
             JStr ''Failed to download or process the generated image''), w1)
      else
        let filename = generateUniqueFilename e (label @ ''-'' @ generationId @ ''.png'') label;
            storagePath = generationId @ ''/'' @ filename;
            (uploadError, w2) = uploadImage e bucket storagePath w1
        in case uploadError of
             None \<Rightarrow> ((''completed'', Some storagePath, error0), w2)
           | Some m \<Rightarrow>
               if bucketRelated m
               then ((''failed'', Some storagePath,
                      JStr (''Storage configuration issue: '' @ m @ ''. Please ensure the "''
                            @ bucket @ ''" bucket exists in your Supabase project.'')), w2)
               else ((''failed'', Some storagePath,
                      JStr (''Failed to store the generated image: '' @ m)), w2))\<close>

text \<open>The \<^verbatim>\<open>update(...).eq('id', generationId)\<close> on the record store.\<close>

definition dbUpdate ::
  "env \<Rightarrow> string \<Rightarrow> generation \<Rightarrow> string \<Rightarrow> int \<Rightarrow> string option \<Rightarrow> json \<Rightarrow> world \<Rightarrow> world" where
  "dbUpdate e generationId g newStatus prog storagePath err w =
     (logCall (DbUpdate generationId) w)
       \<lparr>generations := (generations w)(generationId \<mapsto>
          g\<lparr>status := newStatus, progress := Some prog, storage_path := storagePath,
            error := err, updated_at := isoTime e 0\<rparr>)\<rparr>"

definition progressOrZero :: "generation \<Rightarrow> int" where
  "progressOrZero g = (case progress g of None \<Rightarrow> 0 | Some p \<Rightarrow> p)"

subsection \<open>Try-on\<close>

text \<open>
  The image URL of a completed try-on generation with a storage path: the signed URL,
  and, when that comes back empty, the public URL built from the environment.
\<close>

definition tryOnImageUrl :: "env \<Rightarrow> nat \<Rightarrow> string option \<Rightarrow> world \<Rightarrow> string option \<times> world" where
  "tryOnImageUrl e n storagePath w =
     (let (u, w1) = getImageUrl e n ''try-on-images'' storagePath w in
      if u = [] \<and> truthyStr (supabaseUrl e)
      then (Some (templateUndefined (supabaseUrl e)
                  @ ''/storage/v1/object/public/try-on-images/'' @ templateNull storagePath), w1)
      else (Some u, w1))"

text \<open>
  The three branches on the poll's status: \<^verbatim>\<open>newStatus\<close>, \<^verbatim>\<open>progress\<close>, \<^verbatim>\<open>storagePath\<close>, \<^verbatim>\<open>error\<close>.
  The succeeded branch first logs \<^verbatim>\<open>JSON.stringify(output).substring(0, 200)\<close>; for an
  \<^verbatim>\<open>undefined\<close> output \<^verbatim>\<open>JSON.stringify\<close> returns \<^verbatim>\<open>undefined\<close> and the \<^verbatim>\<open>substring\<close> call throws a
  TypeError, which the handler's \<^verbatim>\<open>catch\<close> turns into a 500.
\<close>

definition tryOnAdvance ::
  "env \<Rightarrow> string \<Rightarrow> generation \<Rightarrow> poll_result \<Rightarrow> world
    \<Rightarrow> (string \<times> int \<times> string option \<times> json) outcome \<times> world" where
  "tryOnAdvance e generationId g ps w =
     (if pollStatus ps = JStr ''succeeded'' then
        (if pollOutput ps = JUndefined then (Threw (typeErrorMessage e), w)
         else if truthy (extractImageUrl (pollOutput ps)) then
           (let ((newStatus, storagePath, err), w1) =
                  downloadAndStore e ''try-on-images'' ''try-on'' generationId
                    (extractImageUrl (pollOutput ps)) (storage_path g) (error g) w
            in (Returned (newStatus, 100, storagePath, err), w1))
         else
           (Returned (''failed'', 100, storage_path g,
              JStr (''No output image received from the API. Output format: ''
                    @ typeof (pollOutput ps))), w))
      else if pollStatus ps = JStr ''failed'' then
        (Returned (''failed'', progressOrZero g, storage_path g,
           jsOr (pollError ps) (JStr ''Generation failed'')), w)
      else
        (Returned (status g, (if pollStatus ps = JStr ''processing'' then 50 else 25),
           storage_path g, error g), w))"

definition GET_tryon :: "env \<Rightarrow> string option \<Rightarrow> world \<Rightarrow> response \<times> world" where
  "GET_tryon e idParam w =
     (if \<not> truthyStr idParam
      then (corsNextResponse (ErrorBody ''Missing generation ID'' None) 400, w)
      else
        let generationId = templateNull idParam in
        case generations w generationId of
          None \<Rightarrow>
            (corsNextResponse
               (ErrorBody ''Generation not found''
                  (Some (if notFoundMessage e \<noteq> [] then notFoundMessage e else ''Unknown error'')))
               404, w)
        | Some g \<Rightarrow>
            if status g = ''completed'' \<or> status g = ''failed'' then
              (let (imageUrl, w1) =
                     (if status g = ''completed'' \<and> truthyStr (storage_path g)
                      then tryOnImageUrl e 0 (storage_path g) w
                      else (None, w))
               in (corsNextResponse
                     (StatusBody \<lparr>resId = generationId, resStatus = status g, resProgress = 100,
                        resImageUrl = imageUrl, resError = error g,
                        dbgExternalId = external_id g, dbgStoragePath = storage_path g,
                        dbgBucketName = ''try-on-images'', dbgMetadata = metadata g,
                        dbgUpdatedAt = updated_at g\<rparr>) 200, w1))
            else
              (case checkPredictionStatus e (external_id g) w of
                 (Threw m, w1) \<Rightarrow>
                   (corsNextResponse (ErrorBody ''Failed to check generation status'' (Some m)) 500,
                    w1)
               | (Returned ps, w1) \<Rightarrow>
                   (case tryOnAdvance e generationId g ps w1 of
                      (Threw m, w2) \<Rightarrow>
                        (corsNextResponse
                           (ErrorBody ''Failed to check generation status'' (Some m)) 500, w2)
                    | (Returned (newStatus, prog, storagePath, err), w2) \<Rightarrow>
                        let w3 = dbUpdate e generationId g newStatus prog storagePath err w2;
                            w4 = (if newStatus = ''completed''
                                  then snd (getImageUrl e 0 ''try-on-images'' storagePath w3)
                                  else w3);
                            (imageUrl, w5) =
                              (if newStatus = ''completed'' \<and> truthyStr storagePath
                               then tryOnImageUrl e 1 storagePath w4
                               else (None, w4))
                        in (corsNextResponse
                              (StatusBody \<lparr>resId = generationId, resStatus = newStatus,
                                 resProgress = prog, resImageUrl = imageUrl, resError = err,
                                 dbgExternalId = external_id g, dbgStoragePath = storagePath,
                                 dbgBucketName = ''try-on-images'', dbgMetadata = metadata g,
                                 dbgUpdatedAt = isoTime e 1\<rparr>) 200, w5))))"

subsection \<open>Composite\<close>

definition compositeAdvance ::
  "env \<Rightarrow> string \<Rightarrow> generation \<Rightarrow> poll_result \<Rightarrow> world
    \<Rightarrow> (string \<times> int \<times> string option \<times> json) \<times> world" where
  "compositeAdvance e generationId g js w =
     (if pollStatus js = JStr ''completed'' \<or> pollStatus js = JStr ''succeeded'' then
        (if truthy (pollOutput js) then
           (let ((newStatus, storagePath, err), w1) =
                  downloadAndStore e ''composite-images'' ''composite'' generationId
                    (pollOutput js) (storage_path g) (error g) w
            in ((newStatus, 100, storagePath, err), w1))
         else
           ((''failed'', 100, storage_path g, JStr ''No output image received from the API''), w))
      else if pollStatus js = JStr ''failed'' then
        ((''failed'', progressOrZero g, storage_path g,
          jsOr (pollError js) (JStr ''Generation failed'')), w)
      else
        ((status g, (if pollStatus js = JStr ''processing'' then 50 else 25),
          storage_path g, error g), w))"

definition GET_composite :: "env \<Rightarrow> string option \<Rightarrow> world \<Rightarrow> response \<times> world" where
  "GET_composite e idParam w =
     (if \<not> truthyStr idParam
      then (corsNextResponse (ErrorBody ''Missing generation ID'' None) 400, w)
      else
        let generationId = templateNull idParam in
        case generations w generationId of
          None \<Rightarrow>
            (corsNextResponse
               (ErrorBody ''Generation not found''
                  (Some (if notFoundMessage e \<noteq> [] then notFoundMessage e else ''Unknown error'')))
               404, w)
        | Some g \<Rightarrow>
            if status g = ''completed'' \<or> status g = ''succeeded'' \<or> status g = ''failed'' then
              (let (imageUrl, w1) =
                     (if status g = ''completed'' \<or> status g = ''succeeded''
                      then (let (u, w') = getImageUrl e 0 ''composite-images'' (storage_path g) w
                            in (Some u, w'))
                      else (None, w))
               in (corsNextResponse
                     (StatusBody \<lparr>resId = generationId, resStatus = status g, resProgress = 100,
                        resImageUrl = imageUrl, resError = error g,
                        dbgExternalId = external_id g, dbgStoragePath = storage_path g,
                        dbgBucketName = ''composite-images'', dbgMetadata = metadata g,
                        dbgUpdatedAt = updated_at g\<rparr>) 200, w1))
            else
              (case checkJobStatus e (external_id g) w of
                 (Threw m, w1) \<Rightarrow>
                   (corsNextResponse (ErrorBody ''Failed to check generation status'' (Some m)) 500,
                    w1)
               | (Returned js, w1) \<Rightarrow>
                   let ((newStatus, prog, storagePath, err), w2) =
                         compositeAdvance e generationId g js w1;
                       w3 = dbUpdate e generationId g newStatus prog storagePath err w2;
                       w4 = (if newStatus = ''completed'' \<or> newStatus = ''succeeded''
                             then snd (getImageUrl e 0 ''composite-images'' storagePath w3)
                             else w3);
                       (imageUrl, w5) =
                         (if newStatus = ''completed'' \<or> newStatus = ''succeeded''
                          then (let (u, w') = getImageUrl e 1 ''composite-images'' storagePath w4
                                in (Some u, w'))
                          else (None, w4))
                   in (corsNextResponse
                         (StatusBody \<lparr>resId = generationId, resStatus = newStatus,
                            resProgress = prog, resImageUrl = imageUrl, resError = err,
                            dbgExternalId = external_id g, dbgStoragePath = storagePath,
                            dbgBucketName = ''composite-images'', dbgMetadata = metadata g,
                            dbgUpdatedAt = isoTime e 1\<rparr>) 200, w5)))"

section \<open>The request schemas\<close>

text \<open>
  The zod validators the two schemas use. A missing key reads as \<open>JUndefined\<close>. The result
  is the parsed value or the issues of the field; \<^verbatim>\<open>min\<close> and \<^verbatim>\<open>max\<close> are both checked, and each
  reports its own message.
\<close>

definition zStringMin :: "nat \<Rightarrow> string \<Rightarrow> json \<Rightarrow> issue list + string" where
  "zStringMin n msg v =
     (case v of
        JUndefined \<Rightarrow> Inl [IssueRequired]
      | JStr s \<Rightarrow> if length s < n then Inl [IssueMessage msg] else Inr s
      | _ \<Rightarrow> Inl [IssueInvalidType])"

definition zStringMinMax :: "nat \<Rightarrow> string \<Rightarrow> nat \<Rightarrow> string \<Rightarrow> json \<Rightarrow> issue list + string" where
  "zStringMinMax n msgMin m msgMax v =
     (case v of
        JUndefined \<Rightarrow> Inl [IssueRequired]
      | JStr s \<Rightarrow>
          (let issues = (if length s < n then [IssueMessage msgMin] else [])
                        @ (if m < length s then [IssueMessage msgMax] else [])
           in if issues = [] then Inr s else Inl issues)
      | _ \<Rightarrow> Inl [IssueInvalidType])"

definition zStringOptional :: "json \<Rightarrow> issue list + string option" where
  "zStringOptional v =
     (case v of
        JUndefined \<Rightarrow> Inr None
      | JStr s \<Rightarrow> Inr (Some s)
      | _ \<Rightarrow> Inl [IssueInvalidType])"

definition zDefault :: "string \<Rightarrow> (json \<Rightarrow> issue list + string) \<Rightarrow> json \<Rightarrow> issue list + string" where
  "zDefault d inner v = (if v = JUndefined then inner (JStr d) else inner v)"

definition issuesOf :: "string \<Rightarrow> issue list + 'a \<Rightarrow> (string \<times> issue) list" where
  "issuesOf field r = (case r of Inl issues \<Rightarrow> map (Pair field) issues | Inr v \<Rightarrow> [])"

record tryon_request =
  modelImageBase64 :: string
  clothingImageBase64 :: string
  modelImageId :: "string option"
  clothingImageId :: "string option"
  prompt :: string

definition TryOnRequestSchema :: "json \<Rightarrow> (string \<times> issue) list + tryon_request" where
  "TryOnRequestSchema b =
     (case b of
        JObj kvs \<Rightarrow>
          (let r1 = zStringMin 1 ''Model image data is required'' (getProp b ''modelImageBase64'');
               r2 = zStringMin 1 ''Clothing image data is required''
                      (getProp b ''clothingImageBase64'');
               r3 = zStringOptional (getProp b ''modelImageId'');
               r4 = zStringOptional (getProp b ''clothingImageId'');
               r5 = zDefault ''A person wearing clothing''
                      (zStringMinMax 5 ''Please provide a descriptive prompt (at least 5 characters)''
                         1000 ''Prompt is too long (maximum 1000 characters)'')
                      (getProp b ''prompt'')
           in case (r1, r2, r3, r4, r5) of
                (Inr v1, Inr v2, Inr v3, Inr v4, Inr v5) \<Rightarrow>
                  Inr \<lparr>modelImageBase64 = v1, clothingImageBase64 = v2, modelImageId = v3,
                       clothingImageId = v4, prompt = v5\<rparr>
              | _ \<Rightarrow>
                  Inl (issuesOf ''modelImageBase64'' r1 @ issuesOf ''clothingImageBase64'' r2
                       @ issuesOf ''modelImageId'' r3 @ issuesOf ''clothingImageId'' r4
                       @ issuesOf ''prompt'' r5))
      | _ \<Rightarrow> Inl [([], IssueInvalidType)])"

record composite_request =
  figureImageBase64 :: string
  sceneImageBase64 :: string
  figureImageId :: "string option"
  sceneImageId :: "string option"
  compositePrompt :: string

definition CompositeRequestSchema :: "json \<Rightarrow> (string \<times> issue) list + composite_request" where
  "CompositeRequestSchema b =
     (case b of
        JObj kvs \<Rightarrow>
          (let r1 = zStringMin 1 ''Figure image data is required'' (getProp b ''figureImageBase64'');
               r2 = zStringMin 1 ''Scene image data is required'' (getProp b ''sceneImageBase64'');
               r3 = zStringOptional (getProp b ''figureImageId'');
               r4 = zStringOptional (getProp b ''sceneImageId'');
               r5 = zStringMinMax 10 ''Please provide a detailed prompt (at least 10 characters)''
                      1000 ''Prompt is too long (maximum 1000 characters)'' (getProp b ''prompt'')
           in case (r1, r2, r3, r4, r5) of
                (Inr v1, Inr v2, Inr v3, Inr v4, Inr v5) \<Rightarrow>
                  Inr \<lparr>figureImageBase64 = v1, sceneImageBase64 = v2, figureImageId = v3,
                       sceneImageId = v4, compositePrompt = v5\<rparr>
              | _ \<Rightarrow>
                  Inl (issuesOf ''figureImageBase64'' r1 @ issuesOf ''sceneImageBase64'' r2
                       @ issuesOf ''figureImageId'' r3 @ issuesOf ''sceneImageId'' r4
                       @ issuesOf ''prompt'' r5))
      | _ \<Rightarrow> Inl [([], IssueInvalidType)])"

section \<open>The provider adapters' submit calls\<close>

text \<open>\<^verbatim>\<open>generateTryOn\<close>: one request; the prediction's \<^verbatim>\<open>id\<close> is returned for polling.\<close>

definition generateTryOn ::
  "env \<Rightarrow> string \<Rightarrow> string \<Rightarrow> string \<Rightarrow> world \<Rightarrow> json outcome \<times> world" where
  "generateTryOn e modelImage clothingImage p w =
     (let w1 = logCall (ProviderSubmit modelImage clothingImage p) w in
      case createReply e of
        Rejected m \<Rightarrow> (Threw m, w1)
      | Reply ok code statusText bodyText parsed \<Rightarrow>
          (case parsed of
             Inl m \<Rightarrow> (Threw m, w1)
           | Inr prediction \<Rightarrow>
               if nullish prediction then (Threw (typeErrorMessage e), w1)
               else if \<not> ok then
                 (Threw (''IDM-VTON API error: ''
                         @ jsString (jsOr (getProp prediction ''detail'') (JStr statusText))), w1)
               else (Returned (getProp prediction ''id''), w1)))"

subsection \<open>The composite adapter\<close>

definition MAX_TIMEOUT :: nat where
  "MAX_TIMEOUT = 600000"

definition POLL_INTERVAL :: nat where
  "POLL_INTERVAL = 2000"

text \<open>
  \<^verbatim>\<open>base64ToFile\<close> rejects when \<^verbatim>\<open>atob\<close> throws on the data; the result is that error's message.
\<close>

definition base64ToFile :: "env \<Rightarrow> string \<Rightarrow> string option" where
  "base64ToFile e base64String =
     (let parts = splitOn CHR '','' base64String;
          base64Data = (if 1 < length parts \<and> parts ! 1 \<noteq> [] then parts ! 1 else base64String)
      in atobError e base64Data)"

text \<open>\<^verbatim>\<open>tempImagePaths\<close>: \<^verbatim>\<open>{}\<close> has neither key.\<close>

record temp_paths =
  modelPath :: "string option"
  scenePath :: "string option"

definition noPaths :: temp_paths where
  "noPaths = \<lparr>modelPath = None, scenePath = None\<rparr>"

definition hasKeys :: "temp_paths \<Rightarrow> bool" where
  "hasKeys paths = (modelPath paths \<noteq> None \<or> scenePath paths \<noteq> None)"

text \<open>
  \<^verbatim>\<open>uploadImagesToSupabase\<close>. Both uploads are made before either result is looked at. The
  temporary id is the second id the composite create request draws.
\<close>

definition uploadImagesToSupabase ::
  "env \<Rightarrow> string \<Rightarrow> string \<Rightarrow> world \<Rightarrow> (string \<times> string \<times> temp_paths) outcome \<times> world" where
  "uploadImagesToSupabase e modelImage sceneImage w =
     (let tempId = generateId e 1;
          mPath = ''temp/'' @ tempId @ ''-model.jpg'';
          sPath = ''temp/'' @ tempId @ ''-scene.jpg''
      in case base64ToFile e modelImage of
           Some m \<Rightarrow> (Threw m, w)
         | None \<Rightarrow>
             (case base64ToFile e sceneImage of
                Some m \<Rightarrow> (Threw m, w)
              | None \<Rightarrow>
                  let (modelError, w1) = uploadImage e ''temp-bucket'' mPath w;
                      (sceneError, w2) = uploadImage e ''temp-bucket'' sPath w1
                  in (case modelError of
                        Some m \<Rightarrow> (Threw (''Failed to upload model image: '' @ m), w2)
                      | None \<Rightarrow>
                          (case sceneError of
                             Some m \<Rightarrow> (Threw (''Failed to upload scene image: '' @ m), w2)
                           | None \<Rightarrow>
                               (let (modelUrl, w3) =
                                      getImageUrl e 0 ''temp-bucket'' (Some mPath) w2;
                                    (sceneUrl, w4) =
                                      getImageUrl e 1 ''temp-bucket'' (Some sPath) w3
                                in (Returned (modelUrl, sceneUrl,
                                      \<lparr>modelPath = Some mPath, scenePath = Some sPath\<rparr>),
                                    w4))))))"

text \<open>
  \<^verbatim>\<open>cleanupTempImages\<close>: a removal that throws ends the \<^verbatim>\<open>try\<close> block, so the second removal
  is not requested then; the error is logged and not thrown.
\<close>

definition cleanupTempImages :: "env \<Rightarrow> temp_paths \<Rightarrow> world \<Rightarrow> world" where
  "cleanupTempImages e paths w =
     (let (threw, w1) =
            (if truthyStr (modelPath paths)
             then deleteImage e ''temp-bucket'' (templateUndefined (modelPath paths)) w
             else (False, w))
      in if threw then w1
         else if truthyStr (scenePath paths)
         then snd (deleteImage e ''temp-bucket'' (templateUndefined (scenePath paths)) w1)
         else w1)"

text \<open>Step 1 of \<^verbatim>\<open>generateComposite\<close>: the request that creates the prediction.\<close>

definition createPrediction ::
  "env \<Rightarrow> string \<Rightarrow> string \<Rightarrow> string \<Rightarrow> world \<Rightarrow> json outcome \<times> world" where
  "createPrediction e figureImageUrl sceneImageUrl p w =
     (let w1 = logCall (ProviderSubmit figureImageUrl sceneImageUrl p) w in
      case createReply e of
        Rejected m \<Rightarrow> (Threw m, w1)
      | Reply ok code statusText bodyText parsed \<Rightarrow>
          if \<not> ok then
            (case parsed of
               Inl m \<Rightarrow>
                 (Threw (''AI Image Combiner API error: '' @ statusText @ '' - '' @ bodyText), w1)
             | Inr errorData \<Rightarrow>
                 if nullish errorData then (Threw (typeErrorMessage e), w1)
                 else
                   (Threw (''AI Image Combiner API error: ''
                           @ jsString (jsOr (jsOr (jsOr (getProp errorData ''message'')
                                                        (getProp errorData ''error''))
                                                  (getProp errorData ''title''))
                                            (JStr statusText))), w1))
          else
            (case parsed of
               Inl m \<Rightarrow> (Threw m, w1)
             | Inr prediction \<Rightarrow>
                 if nullish prediction then (Threw (typeErrorMessage e), w1)
                 else (Returned (getProp prediction ''id''), w1)))"

text \<open>
  One round of the loop of \<^verbatim>\<open>pollForResults\<close>: the status request and what the loop body does
  with the reply. It returns the output, throws, or goes on to the delay.
\<close>

datatype round = Finished "json outcome" | Continue

definition pollRound :: "env \<Rightarrow> nat \<Rightarrow> round" where
  "pollRound e k =
     (case statusReply e k of
        Rejected m \<Rightarrow> Finished (Threw m)
      | Reply ok code statusText bodyText parsed \<Rightarrow>
          if \<not> ok then Finished (Threw (''API error: '' @ showNat code @ '' '' @ statusText))
          else
            (case parsed of
               Inl m \<Rightarrow> Finished (Threw m)
             | Inr prediction \<Rightarrow>
                 if nullish prediction then Finished (Threw (typeErrorMessage e))
                 else if getProp prediction ''status'' = JStr ''succeeded''
                 then Finished (Returned (getProp prediction ''output''))
                 else if getProp prediction ''status'' = JStr ''failed''
                 then Finished (Threw (''Prediction failed: ''
                                       @ jsString (jsOr (getProp prediction ''error'')
                                                        (JStr ''Unknown error''))))
                 else Continue))"

text \<open>
  \<^verbatim>\<open>pollForResults\<close>. \<open>k\<close> counts the status requests and \<open>elapsed\<close> is
  \<^verbatim>\<open>Date.now() - startTime\<close> at the head of the loop: a round that neither returns nor throws
  takes its request's latency and then the \<^verbatim>\<open>delay(POLL_INTERVAL)\<close>.
\<close>

function pollForResults :: "env \<Rightarrow> json \<Rightarrow> nat \<Rightarrow> nat \<Rightarrow> world \<Rightarrow> json outcome \<times> world" where
  "pollForResults e predictionId k elapsed w =
     (if elapsed < MAX_TIMEOUT then
        (case pollRound e k of
           Finished r \<Rightarrow> (r, logCall (ProviderPoll predictionId) w)
         | Continue \<Rightarrow>
             pollForResults e predictionId (Suc k) (elapsed + pollLatency e k + POLL_INTERVAL)
               (logCall (ProviderPoll predictionId) w))
      else (Threw ''Prediction timed out after 10 minutes'', w))"
  by pat_completeness auto
termination
  by (relation "measure (\<lambda>(e, predictionId, k, elapsed, w). MAX_TIMEOUT - elapsed)")
     (auto simp: POLL_INTERVAL_def)

declare pollForResults.simps [simp del]

text \<open>The body of the \<^verbatim>\<open>try\<close> of \<^verbatim>\<open>generateComposite\<close>, with \<^verbatim>\<open>tempImagePaths\<close> as it leaves it.\<close>

definition generateCompositeTry ::
  "env \<Rightarrow> string \<Rightarrow> string \<Rightarrow> string \<Rightarrow> bool \<Rightarrow> world
    \<Rightarrow> (json \<times> json) outcome \<times> temp_paths \<times> world" where
  "generateCompositeTry e figureImage sceneImage p useSupabaseUrls w =
     (if \<not> truthyStr (apiKey e) then (Threw missingKeyMessage, noPaths, w)
      else
        case (if useSupabaseUrls
                 \<and> (startsWith figureImage ''data:'' \<or> startsWith sceneImage ''data:'')
              then uploadImagesToSupabase e figureImage sceneImage w
              else (Returned (figureImage, sceneImage, noPaths), w)) of
          (Threw m, w1) \<Rightarrow> (Threw m, noPaths, w1)
        | (Returned (figureImageUrl, sceneImageUrl, paths), w1) \<Rightarrow>
            (case createPrediction e figureImageUrl sceneImageUrl p w1 of
               (Threw m, w2) \<Rightarrow> (Threw m, paths, w2)
             | (Returned predictionId, w2) \<Rightarrow>
                 (case pollForResults e predictionId 0 0 w2 of
                    (Threw m, w3) \<Rightarrow> (Threw m, paths, w3)
                  | (Returned out, w3) \<Rightarrow> (Returned (out, predictionId), paths, w3))))"

text \<open>
  \<^verbatim>\<open>generateComposite\<close>: the result is \<^verbatim>\<open>(imageUrl, jobId)\<close>. The success path cleans up before
  it returns, the \<^verbatim>\<open>catch\<close> cleans up before it throws again.
\<close>

definition generateComposite ::
  "env \<Rightarrow> string \<Rightarrow> string \<Rightarrow> string \<Rightarrow> bool \<Rightarrow> world \<Rightarrow> (json \<times> json) outcome \<times> world" where
  "generateComposite e figureImage sceneImage p useSupabaseUrls w =
     (case generateCompositeTry e figureImage sceneImage p useSupabaseUrls w of
        (Returned r, tempImagePaths, w1) \<Rightarrow>
          (Returned r,
           if hasKeys tempImagePaths then cleanupTempImages e tempImagePaths w1 else w1)
      | (Threw m, tempImagePaths, w1) \<Rightarrow>
          (Threw m,
           if hasKeys tempImagePaths then cleanupTempImages e tempImagePaths w1 else w1))"

section \<open>The create handlers\<close>

text \<open>
  A create request: the \<^verbatim>\<open>x-user-id\<close> header and what \<^verbatim>\<open>request.json()\<close> gives, \<open>Inl\<close> when it
  throws.
\<close>

record post_request =
  userIdHeader :: "string option"
  bodyJson :: "string + json"

definition optJ :: "string option \<Rightarrow> json" where
  "optJ v = (case v of None \<Rightarrow> JUndefined | Some s \<Rightarrow> JStr s)"

text \<open>
  The row an \<^verbatim>\<open>insert\<close> creates. The payload names \<^verbatim>\<open>id\<close>, \<^verbatim>\<open>user_id\<close>, \<^verbatim>\<open>type\<close>, \<^verbatim>\<open>status\<close>,
  \<^verbatim>\<open>external_id\<close> and \<^verbatim>\<open>metadata\<close>; the other columns take the defaults of the table as the
  README declares it: NULL for \<^verbatim>\<open>storage_path\<close>, \<^verbatim>\<open>error\<close> and \<^verbatim>\<open>progress\<close>, the store's clock for
  \<^verbatim>\<open>updated_at\<close>.
\<close>

definition newGeneration ::
  "env \<Rightarrow> string \<Rightarrow> string option \<Rightarrow> string \<Rightarrow> json \<Rightarrow> json \<Rightarrow> generation" where
  "newGeneration e generationId userHeader ty externalId meta =
     \<lparr>gen_id = generationId,
      user_id = (if truthyStr userHeader then templateNull userHeader else ''anonymous''),
      gen_type = ty, status = ''processing'', external_id = externalId,
      storage_path = None, error = JNull, progress = None, metadata = meta,
      updated_at = dbNow e\<rparr>"

text \<open>
  The \<^verbatim>\<open>insert\<close> on the record store, whose result the handlers do not look at: a row
  whose key is taken is not inserted.
\<close>

definition dbInsert :: "generation \<Rightarrow> world \<Rightarrow> world" where
  "dbInsert row w =
     (case generations w (gen_id row) of
        Some existing \<Rightarrow> logCall (DbInsert (gen_id row)) w
      | None \<Rightarrow>
          (logCall (DbInsert (gen_id row)) w)
            \<lparr>generations := (generations w)(gen_id row \<mapsto> row)\<rparr>)"

definition POST_tryon :: "env \<Rightarrow> post_request \<Rightarrow> world \<Rightarrow> response \<times> world" where
  "POST_tryon e req w =
     (case bodyJson req of
        Inl m \<Rightarrow> (corsNextResponse (ErrorBody ''Failed to generate try-on image'' (Some m)) 500, w)
      | Inr b \<Rightarrow>
          (case TryOnRequestSchema b of
             Inl details \<Rightarrow> (corsNextResponse (InvalidBody details) 400, w)
           | Inr d \<Rightarrow>
               let generationId = generateId e 0 in
               if modelImageBase64 d = [] \<or> clothingImageBase64 d = [] then
                 (corsNextResponse
                    (ErrorBody ''Missing image data. Both model and clothing images are required.''
                       None) 400, w)
               else
                 (case generateTryOn e (modelImageBase64 d) (clothingImageBase64 d) (prompt d) w of
                    (Threw m, w1) \<Rightarrow>
                      (corsNextResponse
                         (ErrorBody ''Failed to initiate try-on generation'' (Some m)) 500, w1)
                  | (Returned predictionId, w1) \<Rightarrow>
                      (corsNextResponse
                         (CreatedBody generationId ''processing''
                            ''Try-on generation has been initiated'' 15
                            (JObj [(''modelImageId'', optJ (modelImageId d)),
                                   (''clothingImageId'', optJ (clothingImageId d)),
                                   (''hasModelImageBase64'', JBool (modelImageBase64 d \<noteq> [])),
                                   (''hasClothingImageBase64'',
                                    JBool (clothingImageBase64 d \<noteq> [])),
                                   (''timestamp'', JStr (isoTime e 1))])) 200,
                       dbInsert
                         (newGeneration e generationId (userIdHeader req) ''try-on'' predictionId
                            (JObj [(''modelImageId'', optJ (modelImageId d)),
                                   (''clothingImageId'', optJ (clothingImageId d)),
                                   (''prompt'', JStr (prompt d))])) w1))))"

text \<open>
  The composite create handler calls \<^verbatim>\<open>generateComposite(figure, scene, prompt, true)\<close> and
  keeps the \<^verbatim>\<open>jobId\<close> of its result.
\<close>

definition POST_composite :: "env \<Rightarrow> post_request \<Rightarrow> world \<Rightarrow> response \<times> world" where
  "POST_composite e req w =
     (case bodyJson req of
        Inl m \<Rightarrow>
          (corsNextResponse (ErrorBody ''Failed to generate composite image'' (Some m)) 500, w)
      | Inr b \<Rightarrow>
          (case CompositeRequestSchema b of
             Inl details \<Rightarrow> (corsNextResponse (InvalidBody details) 400, w)
           | Inr d \<Rightarrow>
               let generationId = generateId e 0 in
               if figureImageBase64 d = [] \<or> sceneImageBase64 d = [] then
                 (corsNextResponse
                    (ErrorBody ''Missing image data. Both figure and scene images are required.''
                       None) 400, w)
               else
                 (case generateComposite e (figureImageBase64 d) (sceneImageBase64 d)
                         (compositePrompt d) True w of
                    (Threw m, w1) \<Rightarrow>
                      (corsNextResponse
                         (ErrorBody ''Failed to initiate composite generation'' (Some m)) 500, w1)
                  | (Returned (imageUrl, jobId), w1) \<Rightarrow>
                      (corsNextResponse
                         (CreatedBody generationId ''processing''
                            ''Composite generation has been initiated'' 20
                            (JObj [(''figureImageId'', optJ (figureImageId d)),
                                   (''sceneImageId'', optJ (sceneImageId d)),
                                   (''prompt'', JStr (compositePrompt d)),
                                   (''hasFigureImageBase64'', JBool (figureImageBase64 d \<noteq> [])),
                                   (''hasSceneImageBase64'', JBool (sceneImageBase64 d \<noteq> [])),
                                   (''timestamp'', JStr (isoTime e 1))])) 200,
                       dbInsert
                         (newGeneration e generationId (userIdHeader req) ''composite'' jobId
                            (JObj [(''figureImageId'', optJ (figureImageId d)),
                                   (''sceneImageId'', optJ (sceneImageId d)),
                                   (''prompt'', JStr (compositePrompt d))])) w1))))"

section \<open>The two endpoints side by side\<close>

text \<open>
  The try-on and the composite routes are separate files with the same shape. The
  statements that hold for both are made once, over the endpoint.
\<close>

datatype endpoint = TryOn | Composite

fun GET :: "endpoint \<Rightarrow> env \<Rightarrow> string option \<Rightarrow> world \<Rightarrow> response \<times> world" where
  "GET TryOn = GET_tryon"
| "GET Composite = GET_composite"

fun POST :: "endpoint \<Rightarrow> env \<Rightarrow> post_request \<Rightarrow> world \<Rightarrow> response \<times> world" where
  "POST TryOn = POST_tryon"
| "POST Composite = POST_composite"

fun checkStatus :: "endpoint \<Rightarrow> env \<Rightarrow> json \<Rightarrow> world \<Rightarrow> poll_result outcome \<times> world" where
  "checkStatus TryOn = checkPredictionStatus"
| "checkStatus Composite = checkJobStatus"

fun bucketOf :: "endpoint \<Rightarrow> string" where
  "bucketOf TryOn = ''try-on-images''"
| "bucketOf Composite = ''composite-images''"

text \<open>The poll statuses an endpoint's status handler takes for a finished job.\<close>

fun succeededStatus :: "endpoint \<Rightarrow> json \<Rightarrow> bool" where
  "succeededStatus TryOn s = (s = JStr ''succeeded'')"
| "succeededStatus Composite s = (s = JStr ''completed'' \<or> s = JStr ''succeeded'')"

text \<open>The value an endpoint's status handler downloads from, for a poll output.\<close>

fun outputUrl :: "endpoint \<Rightarrow> json \<Rightarrow> json" where
  "outputUrl TryOn out = extractImageUrl out"
| "outputUrl Composite out = out"

fun labelOf :: "endpoint \<Rightarrow> string" where
  "labelOf TryOn = ''try-on''"
| "labelOf Composite = ''composite''"

text \<open>
  The branches on the poll's status, for either endpoint; only the try-on handler can throw
  there.
\<close>

fun advance ::
  "endpoint \<Rightarrow> env \<Rightarrow> string \<Rightarrow> generation \<Rightarrow> poll_result \<Rightarrow> world
    \<Rightarrow> (string \<times> int \<times> string option \<times> json) outcome \<times> world" where
  "advance TryOn e gid g ps w = tryOnAdvance e gid g ps w"
| "advance Composite e gid g ps w =
     (case compositeAdvance e gid g ps w of (x, w') \<Rightarrow> (Returned x, w'))"

text \<open>The error a status handler records when a finished job gives it nothing to download.\<close>

fun noOutputMessage :: "endpoint \<Rightarrow> json \<Rightarrow> string" where
  "noOutputMessage TryOn out =
     ''No output image received from the API. Output format: '' @ typeof out"
| "noOutputMessage Composite out = ''No output image received from the API''"

text \<open>
  A property value the probing loop of the try-on handler stops at: a non-empty string or
  a non-empty array.
\<close>

definition usable :: "json \<Rightarrow> bool" where
  "usable v = (truthy v \<and> (typeof v = ''string'' \<or> isNonEmptyArray v))"

text \<open>The storage path a status check uploads the output to, and the upload's error.\<close>

definition outputPath :: "env \<Rightarrow> endpoint \<Rightarrow> string \<Rightarrow> string" where
  "outputPath e ep gid =
     gid @ ''/'' @ generateUniqueFilename e (labelOf ep @ ''-'' @ gid @ ''.png'') (labelOf ep)"

definition uploadErrorOf :: "env \<Rightarrow> string \<Rightarrow> string \<Rightarrow> string option" where
  "uploadErrorOf e bucket path =
     fst (uploadImage e bucket path \<lparr>generations = Map.empty, objects = {}, calls = []\<rparr>)"

text \<open>Reading a status answer and the row behind it.\<close>

definition projectionOf :: "response \<Rightarrow> projection option" where
  "projectionOf r = (case payload r of StatusBody p \<Rightarrow> Some p | _ \<Rightarrow> None)"

text \<open>
  A status check has ended in a recorded failure: it answered 200 with a projection whose
  status is failed and whose error is the message, and the stored row says the same.
\<close>

definition recordedFailure :: "string \<Rightarrow> string \<Rightarrow> response \<times> world \<Rightarrow> bool" where
  "recordedFailure gid msg rw =
     (httpStatus (fst rw) = 200
      \<and> map_option resStatus (projectionOf (fst rw)) = Some ''failed''
      \<and> map_option resError (projectionOf (fst rw)) = Some (JStr msg)
      \<and> map_option status (generations (snd rw) gid) = Some ''failed''
      \<and> map_option error (generations (snd rw) gid) = Some (JStr msg))"





subsection \<open>A concrete environment and record store\<close>

text \<open>
  An environment in which every outside call succeeds and the provider reports the job as
  starting, and a store with one generation; the examples below vary them.
\<close>

definition sampleEnv :: env where
  "sampleEnv =
     \<lparr>supabaseUrl = Some ''https://proj.supabase.co'',
      apiKey = Some ''market-key'',
      generateId = (\<lambda>n. if n = 0 then ''gen-2'' else ''tmp-1''),
      dateNow = 1700000000000,
      randomString = ''k3j9x2ab'',
      isoTime = (\<lambda>n. ''2025-01-01T00:00:00.000Z''),
      storageUpload = (\<lambda>bucket path. UploadOk),
      storageSign = (\<lambda>n bucket path. SignOk (''https://signed/'' @ bucket @ ''/'' @ templateNull path)),
      storageRemove = (\<lambda>bucket path. RemoveOk),
      downloadOk = (\<lambda>u. True),
      createReply = Reply True 201 ''Created'' [] (Inr (JObj [(''id'', JStr ''pred-2'')])),
      statusReply = (\<lambda>k. Reply True 200 ''OK'' [] (Inr (JObj [(''status'', JStr ''starting'')]))),
      pollLatency = (\<lambda>k. 100),
      atobError = (\<lambda>s. None),
      typeErrorMessage = ''Cannot read properties'',
      notFoundMessage = ''no rows returned'',
      dbNow = ''2025-01-01T00:00:00.000Z''\<rparr>"

definition sampleRow :: "string \<Rightarrow> generation" where
  "sampleRow st =
     \<lparr>gen_id = ''gen-1'', user_id = ''anonymous'', gen_type = ''try-on'', status = st,
      external_id = JStr ''pred-1'', storage_path = None, error = JNull, progress = None,
      metadata = JObj [(''prompt'', JStr ''A person wearing a red jacket'')],
      updated_at = ''2024-12-31T23:59:00.000Z''\<rparr>"


definition sampleWorld :: "generation \<Rightarrow> world" where
  "sampleWorld g = \<lparr>generations = [gen_id g \<mapsto> g], objects = {}, calls = []\<rparr>"

text \<open>The reply of a provider whose prediction has the given status, output and error.\<close>

definition predictionReply :: "json \<Rightarrow> json \<Rightarrow> json \<Rightarrow> http_reply" where
  "predictionReply st out err =
     Reply True 200 ''OK'' [] (Inr (JObj [(''status'', st), (''output'', out), (''error'', err)]))"

text \<open>The sample environment with a provider that reports the job as succeeded.\<close>

definition finishedEnv :: "json \<Rightarrow> env" where
  "finishedEnv out =
     sampleEnv\<lparr>statusReply := (\<lambda>k. predictionReply (JStr ''succeeded'') out JNull)\<rparr>"

text \<open>The sample environment with a provider that reports the given status, output and error.\<close>

definition reportingEnv :: "json \<Rightarrow> json \<Rightarrow> json \<Rightarrow> env" where
  "reportingEnv st out err = sampleEnv\<lparr>statusReply := (\<lambda>k. predictionReply st out err)\<rparr>"

text \<open>Create requests with inline image data, with and without a prompt.\<close>

definition tryOnBody :: "json list \<Rightarrow> json" where
  "tryOnBody p =
     JObj ([(''modelImageBase64'', JStr ''data:image/png;base64,AAAA''),
            (''clothingImageBase64'', JStr ''data:image/png;base64,BBBB'')]
           @ map (Pair ''prompt'') p)"

definition compositeBody :: "json list \<Rightarrow> json" where
  "compositeBody p =
     JObj ([(''figureImageBase64'', JStr ''data:image/png;base64,AAAA''),
            (''sceneImageBase64'', JStr ''data:image/png;base64,BBBB'')]
           @ map (Pair ''prompt'') p)"

subsection \<open>Reading the effects of a create request\<close>

text \<open>The writes to the record store among the outside calls.\<close>

fun isDbCall :: "call \<Rightarrow> bool" where
  "isDbCall (DbInsert gid) = True"
| "isDbCall (DbUpdate gid) = True"
| "isDbCall c = False"

definition dbCalls :: "world \<Rightarrow> call list" where
  "dbCalls w = filter isDbCall (calls w)"


text \<open>The two temporary objects of a composite submit.\<close>

definition tempModelPath :: "env \<Rightarrow> string" where
  "tempModelPath e = ''temp/'' @ generateId e 1 @ ''-model.jpg''"

definition tempScenePath :: "env \<Rightarrow> string" where
  "tempScenePath e = ''temp/'' @ generateId e 1 @ ''-scene.jpg''"

section \<open>Facts about the components\<close>

lemma logCall_simps [simp]:
  "generations (logCall c w) = generations w"
  "objects (logCall c w) = objects w"
  "calls (logCall c w) = calls w @ [c]"
  by (simp_all add: logCall_def)

lemma snd_checkPredictionStatus:
  "snd (checkPredictionStatus e x w) = logCall (ProviderPoll x) w"
  by (simp add: checkPredictionStatus_def Let_def split: http_reply.splits sum.splits)

lemma snd_checkJobStatus:
  "snd (checkJobStatus e x w) = (if truthyStr (apiKey e) then logCall (ProviderPoll x) w else w)"
  by (simp add: checkJobStatus_def Let_def split: http_reply.splits sum.splits)

lemma getImageUrl_world:
  "snd (getImageUrl e n bucket path w) = logCall (StorageSign bucket path) w"
  by (simp add: getImageUrl_def Let_def split: sign_reply.splits)


lemma tryOnImageUrl_world:
  "snd (tryOnImageUrl e n path w) = logCall (StorageSign ''try-on-images'' path) w"
  by (simp add: tryOnImageUrl_def Let_def split_def getImageUrl_world)


lemma uploadImage_generations:
  "generations (snd (uploadImage e bucket path w)) = generations w"
  by (simp add: uploadImage_def Let_def split: upload_reply.splits)

lemma uploadImage_calls:
  "prefix (calls w) (calls (snd (uploadImage e bucket path w)))"
  by (simp add: uploadImage_def Let_def split: upload_reply.splits)

lemma downloadAndStore_generations:
  "generations (snd (downloadAndStore e bucket label gid u sp0 err0 w)) = generations w"
  by (simp add: downloadAndStore_def Let_def split_def uploadImage_generations split: option.splits)

lemma snd_downloadAndStore:
  "snd (downloadAndStore e bucket label gid u sp0 err0 w)
     = (if \<not> downloadOk e u then logCall (Download u) w
        else snd (uploadImage e bucket
                    (gid @ ''/'' @ generateUniqueFilename e (label @ ''-'' @ gid @ ''.png'') label)
                    (logCall (Download u) w)))"
  by (simp add: downloadAndStore_def Let_def split_def split: option.splits)







section \<open>A poll that throws\<close>

text \<open>
  Claim C4. A status check on a processing generation whose provider status call throws
  (the request fails, the provider answers with an error status, the body does not
  parse, or, for the composite adapter, the API key is missing) answers HTTP 500 with
  the thrown message, for both endpoints. The record store and the artifact store are
  left as they were: the generation stays processing, and the only outside call of the
  check is the status request itself, if it was made at all.
\<close>

theorem poll_error_leaves_record:
  assumes "generations w gid = Some g" and "gid \<noteq> []" and "status g = ''processing''"
    and "fst (checkStatus ep e (external_id g) w) = Threw m"
  shows "httpStatus (fst (GET ep e (Some gid) w)) = 500
         \<and> payload (fst (GET ep e (Some gid) w))
             = ErrorBody ''Failed to check generation status'' (Some m)
         \<and> generations (snd (GET ep e (Some gid) w)) = generations w
         \<and> objects (snd (GET ep e (Some gid) w)) = objects w
         \<and> (calls (snd (GET ep e (Some gid) w)) = calls w
            \<or> calls (snd (GET ep e (Some gid) w)) = calls w @ [ProviderPoll (external_id g)])"
proof (cases ep)
  case TryOn
  obtain r w1 where p: "checkPredictionStatus e (external_id g) w = (r, w1)"
    by (cases "checkPredictionStatus e (external_id g) w")
  from p assms(4) TryOn have r: "r = Threw m" by simp
  from p have w1: "w1 = logCall (ProviderPoll (external_id g)) w"
    using snd_checkPredictionStatus [of e "external_id g" w] by simp
  show ?thesis
    using assms(1-3) TryOn p r w1
    by (simp add: GET_tryon_def truthyStr_def templateNull_def corsNextResponse_def)
next
  case Composite
  obtain r w1 where p: "checkJobStatus e (external_id g) w = (r, w1)"
    by (cases "checkJobStatus e (external_id g) w")
  from p assms(4) Composite have r: "r = Threw m" by simp
  from p have w1:
    "w1 = (if truthyStr (apiKey e) then logCall (ProviderPoll (external_id g)) w else w)"
    using snd_checkJobStatus [of e "external_id g" w] by simp
  show ?thesis
    using assms(1-3) Composite p r w1
    by (simp add: GET_composite_def truthyStr_def templateNull_def corsNextResponse_def)
qed

text \<open>The try-on status request is rejected by the network: 500, and the row is untouched.\<close>

theorem poll_error_leaves_record_witness:
  "generations (sampleWorld (sampleRow ''processing'')) ''gen-1'' = Some (sampleRow ''processing'')
   \<and> status (sampleRow ''processing'') = ''processing''
   \<and> fst (checkStatus TryOn (sampleEnv\<lparr>statusReply := (\<lambda>k. Rejected ''fetch failed'')\<rparr>)
            (external_id (sampleRow ''processing'')) (sampleWorld (sampleRow ''processing'')))
       = Threw ''fetch failed''
   \<and> httpStatus (fst (GET TryOn (sampleEnv\<lparr>statusReply := (\<lambda>k. Rejected ''fetch failed'')\<rparr>)
            (Some ''gen-1'') (sampleWorld (sampleRow ''processing'')))) = 500
   \<and> payload (fst (GET TryOn (sampleEnv\<lparr>statusReply := (\<lambda>k. Rejected ''fetch failed'')\<rparr>)
            (Some ''gen-1'') (sampleWorld (sampleRow ''processing''))))
       = ErrorBody ''Failed to check generation status'' (Some ''fetch failed'')
   \<and> generations (snd (GET TryOn (sampleEnv\<lparr>statusReply := (\<lambda>k. Rejected ''fetch failed'')\<rparr>)
            (Some ''gen-1'') (sampleWorld (sampleRow ''processing''))))
       = generations (sampleWorld (sampleRow ''processing''))"
  using poll_error_leaves_record [of "sampleWorld (sampleRow ''processing'')" "''gen-1''"
      "sampleRow ''processing''" TryOn "sampleEnv\<lparr>statusReply := (\<lambda>k. Rejected ''fetch failed'')\<rparr>"
      "''fetch failed''"]
  by (simp add: sampleWorld_def sampleRow_def sampleEnv_def checkPredictionStatus_def)

section \<open>A stored status of succeeded\<close>



section \<open>Reading a final state\<close>




section \<open>Facts about a live status check\<close>

lemma fst_uploadImage:
  "fst (uploadImage e bucket path w) = uploadErrorOf e bucket path"
  by (simp add: uploadImage_def uploadErrorOf_def Let_def split: upload_reply.splits)

lemma downloadAndStore_throws:
  "\<not> downloadOk e u \<Longrightarrow>
     downloadAndStore e bucket label gid u sp0 err0 w
       = ((''failed'', sp0, JStr ''Failed to download or process the generated image''),
          logCall (Download u) w)"
  by (simp add: downloadAndStore_def Let_def)

lemma fst_downloadAndStore:
  \<open>downloadOk e u \<Longrightarrow>
     fst (downloadAndStore e bucket label gid u sp0 err0 w)
       = (case uploadErrorOf e bucket
                 (gid @ ''/'' @ generateUniqueFilename e (label @ ''-'' @ gid @ ''.png'') label) of
            None \<Rightarrow>
              (''completed'',
               Some (gid @ ''/'' @ generateUniqueFilename e (label @ ''-'' @ gid @ ''.png'') label),
               err0)
          | Some m \<Rightarrow>
              (''failed'',
               Some (gid @ ''/'' @ generateUniqueFilename e (label @ ''-'' @ gid @ ''.png'') label),
               JStr (if bucketRelated m
                     then ''Storage configuration issue: '' @ m @ ''. Please ensure the "''
                          @ bucket @ ''" bucket exists in your Supabase project.''
                     else ''Failed to store the generated image: '' @ m)))\<close>
  by (simp add: downloadAndStore_def Let_def split_def fst_uploadImage
      split: option.splits)

lemma compositeAdvance_generations:
  "generations (snd (compositeAdvance e gid g ps w)) = generations w"
  by (simp add: compositeAdvance_def Let_def split_def downloadAndStore_generations)

lemma tryOnAdvance_generations:
  "generations (snd (tryOnAdvance e gid g ps w)) = generations w"
  by (simp add: tryOnAdvance_def Let_def split_def downloadAndStore_generations)

lemma advance_generations:
  "generations (snd (advance ep e gid g ps w)) = generations w"
  by (cases ep) (simp_all add: tryOnAdvance_generations compositeAdvance_generations split_def)

lemma extractImageUrl_undefined [simp]: "extractImageUrl JUndefined = JNull"
  by (simp add: extractImageUrl_def)

lemma advance_in_progress:
  "\<not> succeededStatus ep (pollStatus ps) \<Longrightarrow> pollStatus ps \<noteq> JStr ''failed'' \<Longrightarrow>
     advance ep e gid g ps w
       = (Returned (status g, (if pollStatus ps = JStr ''processing'' then 50 else 25),
                    storage_path g, error g), w)"
  by (cases ep) (simp_all add: tryOnAdvance_def compositeAdvance_def)

lemma advance_failed:
  "\<not> succeededStatus ep (pollStatus ps) \<Longrightarrow> pollStatus ps = JStr ''failed'' \<Longrightarrow>
     advance ep e gid g ps w
       = (Returned (''failed'', progressOrZero g, storage_path g,
                    jsOr (pollError ps) (JStr ''Generation failed'')), w)"
  by (cases ep) (simp_all add: tryOnAdvance_def compositeAdvance_def)

lemma advance_no_output:
  "succeededStatus ep (pollStatus ps) \<Longrightarrow> ep = Composite \<or> pollOutput ps \<noteq> JUndefined \<Longrightarrow>
   \<not> truthy (outputUrl ep (pollOutput ps)) \<Longrightarrow>
     advance ep e gid g ps w
       = (Returned (''failed'', 100, storage_path g,
                    JStr (noOutputMessage ep (pollOutput ps))), w)"
  by (cases ep) (auto simp add: tryOnAdvance_def compositeAdvance_def)

lemma advance_download:
  "succeededStatus ep (pollStatus ps) \<Longrightarrow> truthy (outputUrl ep (pollOutput ps)) \<Longrightarrow>
     advance ep e gid g ps w
       = (case downloadAndStore e (bucketOf ep) (labelOf ep) gid (outputUrl ep (pollOutput ps))
                 (storage_path g) (error g) w of
            ((st, sp, er), w') \<Rightarrow> (Returned (st, 100, sp, er), w'))"
  by (cases ep) (auto simp add: tryOnAdvance_def compositeAdvance_def split_def Let_def)

lemma GET_processing:
  assumes "generations w gid = Some g" and "gid \<noteq> []" and "status g = ''processing''"
    and "checkStatus ep e (external_id g) w = (Returned ps, w1)"
    and "advance ep e gid g ps w1 = (Returned (st, pr, sp, er), w2)"
  shows "httpStatus (fst (GET ep e (Some gid) w)) = 200"
    and "\<exists>url. payload (fst (GET ep e (Some gid) w)) =
           StatusBody \<lparr>resId = gid, resStatus = st, resProgress = pr, resImageUrl = url,
             resError = er, dbgExternalId = external_id g, dbgStoragePath = sp,
             dbgBucketName = bucketOf ep, dbgMetadata = metadata g,
             dbgUpdatedAt = isoTime e 1\<rparr>"
    and "generations (snd (GET ep e (Some gid) w)) =
           (generations w)(gid \<mapsto> g\<lparr>status := st, progress := Some pr, storage_path := sp,
                                   error := er, updated_at := isoTime e 0\<rparr>)"
    and "objects (snd (GET ep e (Some gid) w)) = objects w2"
    and "prefix (calls w2 @ [DbUpdate gid]) (calls (snd (GET ep e (Some gid) w)))"
proof -
  have g2: "generations w2 = generations w"
  proof -
    have "generations w1 = generations w"
      using assms(4) snd_checkPredictionStatus [of e "external_id g" w]
        snd_checkJobStatus [of e "external_id g" w]
      by (cases ep) (auto split: if_splits)
    moreover have "generations w2 = generations w1"
      using advance_generations [of ep e gid g ps w1] assms(5) by simp
    ultimately show ?thesis by simp
  qed
  show "httpStatus (fst (GET ep e (Some gid) w)) = 200"
    using assms
    by (cases ep)
       (auto simp add: GET_tryon_def GET_composite_def truthyStr_def templateNull_def Let_def
          split_def corsNextResponse_def)
  show "\<exists>url. payload (fst (GET ep e (Some gid) w)) =
           StatusBody \<lparr>resId = gid, resStatus = st, resProgress = pr, resImageUrl = url,
             resError = er, dbgExternalId = external_id g, dbgStoragePath = sp,
             dbgBucketName = bucketOf ep, dbgMetadata = metadata g,
             dbgUpdatedAt = isoTime e 1\<rparr>"
    using assms
    by (cases ep)
       (auto simp add: GET_tryon_def GET_composite_def truthyStr_def templateNull_def Let_def
          split_def corsNextResponse_def)
  show "generations (snd (GET ep e (Some gid) w)) =
           (generations w)(gid \<mapsto> g\<lparr>status := st, progress := Some pr, storage_path := sp,
                                   error := er, updated_at := isoTime e 0\<rparr>)"
    using assms g2
    by (cases ep)
       (auto simp add: GET_tryon_def GET_composite_def truthyStr_def templateNull_def Let_def
          split_def getImageUrl_world tryOnImageUrl_world dbUpdate_def)
  show "objects (snd (GET ep e (Some gid) w)) = objects w2"
    using assms
    by (cases ep)
       (auto simp add: GET_tryon_def GET_composite_def truthyStr_def templateNull_def Let_def
          split_def getImageUrl_world tryOnImageUrl_world dbUpdate_def)
  show "prefix (calls w2 @ [DbUpdate gid]) (calls (snd (GET ep e (Some gid) w)))"
    using assms
    by (cases ep)
       (auto simp add: GET_tryon_def GET_composite_def truthyStr_def templateNull_def Let_def
          split_def getImageUrl_world tryOnImageUrl_world dbUpdate_def)
qed

section \<open>Failing to store the output\<close>

lemma recordedFailureI:
  assumes "generations w gid = Some g" and "gid \<noteq> []" and "status g = ''processing''"
    and "checkStatus ep e (external_id g) w = (Returned ps, w1)"
    and "fst (advance ep e gid g ps w1) = Returned (''failed'', pr, sp, JStr msg)"
  shows "recordedFailure gid msg (GET ep e (Some gid) w)"
proof -
  obtain w2 where a: "advance ep e gid g ps w1 = (Returned (''failed'', pr, sp, JStr msg), w2)"
    using assms(5) by (cases "advance ep e gid g ps w1") simp
  note p = GET_processing [OF assms(1-4) a]
  from p(2) obtain url where
    "payload (fst (GET ep e (Some gid) w)) =
       StatusBody \<lparr>resId = gid, resStatus = ''failed'', resProgress = pr, resImageUrl = url,
         resError = JStr msg, dbgExternalId = external_id g, dbgStoragePath = sp,
         dbgBucketName = bucketOf ep, dbgMetadata = metadata g, dbgUpdatedAt = isoTime e 1\<rparr>"
    by blast
  then show ?thesis
    using p(1) p(3) by (simp add: recordedFailure_def projectionOf_def)
qed

lemma fst_advance_download:
  assumes "succeededStatus ep (pollStatus ps)" and "truthy (outputUrl ep (pollOutput ps))"
  shows "fst (advance ep e gid g ps w)
           = Returned (fst (fst (downloadAndStore e (bucketOf ep) (labelOf ep) gid
                                   (outputUrl ep (pollOutput ps)) (storage_path g) (error g) w)),
                       100,
                       snd (fst (downloadAndStore e (bucketOf ep) (labelOf ep) gid
                                   (outputUrl ep (pollOutput ps)) (storage_path g) (error g) w)))"
  by (simp add: advance_download [OF assms] split_def)

text \<open>
  Claim C7. When a status check finds the job succeeded with an output to download, and
  storing it fails, the check does not throw: it answers 200 with a failed projection
  and writes the same failure into the row, for both endpoints. The error is the
  download message when fetching the output throws; when the upload fails with a
  bucket-related message it is the storage-configuration message, which quotes the
  upload error and names the endpoint's bucket; for any other upload error it is the
  store-failure message followed by the upload error.
\<close>

theorem storage_failure_recorded:
  assumes "generations w gid = Some g" and "gid \<noteq> []" and "status g = ''processing''"
    and "fst (checkStatus ep e (external_id g) w) = Returned ps"
    and "succeededStatus ep (pollStatus ps)"
    and "truthy (outputUrl ep (pollOutput ps))"
  shows \<open>(\<not> downloadOk e (outputUrl ep (pollOutput ps)) \<longrightarrow>
            recordedFailure gid ''Failed to download or process the generated image''
              (GET ep e (Some gid) w))
       \<and> (downloadOk e (outputUrl ep (pollOutput ps))
            \<and> uploadErrorOf e (bucketOf ep) (outputPath e ep gid) = Some m \<and> bucketRelated m \<longrightarrow>
            recordedFailure gid
              (''Storage configuration issue: '' @ m @ ''. Please ensure the "'' @ bucketOf ep
               @ ''" bucket exists in your Supabase project.'')
              (GET ep e (Some gid) w))
       \<and> (downloadOk e (outputUrl ep (pollOutput ps))
            \<and> uploadErrorOf e (bucketOf ep) (outputPath e ep gid) = Some m \<and> \<not> bucketRelated m \<longrightarrow>
            recordedFailure gid (''Failed to store the generated image: '' @ m)
              (GET ep e (Some gid) w))\<close>
proof -
  obtain w1 where c: "checkStatus ep e (external_id g) w = (Returned ps, w1)"
    using assms(4) by (cases "checkStatus ep e (external_id g) w") simp
  note adv = fst_advance_download [OF assms(5,6), of e gid g w1]
  have throws: "recordedFailure gid ''Failed to download or process the generated image''
                  (GET ep e (Some gid) w)"
    if "\<not> downloadOk e (outputUrl ep (pollOutput ps))"
    using adv that
    by (intro recordedFailureI [OF assms(1-3) c]) (simp add: downloadAndStore_throws)
  have stored: \<open>recordedFailure gid
                  (if bucketRelated m
                   then ''Storage configuration issue: '' @ m @ ''. Please ensure the "''
                        @ bucketOf ep @ ''" bucket exists in your Supabase project.''
                   else ''Failed to store the generated image: '' @ m)
                  (GET ep e (Some gid) w)\<close>
    if "downloadOk e (outputUrl ep (pollOutput ps))"
      and "uploadErrorOf e (bucketOf ep) (outputPath e ep gid) = Some m"
    using adv that
    by (intro recordedFailureI [OF assms(1-3) c])
       (simp add: fst_downloadAndStore outputPath_def)
  show ?thesis
    using throws stored by auto
qed


text \<open>
  The three failures on the sample generation: a download that throws, a missing bucket
  (which the upload helper reports with its own bucket message), and an object that
  already exists.
\<close>

theorem storage_failure_recorded_witness:
  \<open>truthy (outputUrl TryOn (JStr ''https://cdn/x.png''))
   \<and> \<not> downloadOk ((finishedEnv (JStr ''https://cdn/x.png''))\<lparr>downloadOk := (\<lambda>u. False)\<rparr>)
          (outputUrl TryOn (JStr ''https://cdn/x.png''))
   \<and> recordedFailure ''gen-1'' ''Failed to download or process the generated image''
        (GET TryOn ((finishedEnv (JStr ''https://cdn/x.png''))\<lparr>downloadOk := (\<lambda>u. False)\<rparr>)
           (Some ''gen-1'') (sampleWorld (sampleRow ''processing'')))
   \<and> bucketRelated ''Upload failed. Please ensure the "composite-images" bucket exists in your Supabase project and has proper permissions.''
   \<and> recordedFailure ''gen-1''
        (''Storage configuration issue: ''
         @ ''Upload failed. Please ensure the "composite-images" bucket exists in your Supabase project and has proper permissions.''
         @ ''. Please ensure the "composite-images" bucket exists in your Supabase project.'')
        (GET Composite
           ((finishedEnv (JStr ''https://cdn/x.png''))
              \<lparr>storageUpload := (\<lambda>bucket path. UploadError ''Bucket not found'')\<rparr>)
           (Some ''gen-1'') (sampleWorld (sampleRow ''processing'')))
   \<and> \<not> bucketRelated ''The resource already exists''
   \<and> recordedFailure ''gen-1'' ''Failed to store the generated image: The resource already exists''
        (GET TryOn
           ((finishedEnv (JStr ''https://cdn/x.png''))
              \<lparr>storageUpload := (\<lambda>bucket path. UploadError ''The resource already exists'')\<rparr>)
           (Some ''gen-1'') (sampleWorld (sampleRow ''processing'')))\<close>
proof -
  let ?w = "sampleWorld (sampleRow ''processing'')"
  let ?g = "sampleRow ''processing''"
  let ?out = "JStr ''https://cdn/x.png''"
  let ?ps = "PollResult (JStr ''succeeded'') ?out JNull"
  let ?eA = "(finishedEnv ?out)\<lparr>downloadOk := (\<lambda>u. False)\<rparr>"
  let ?eB = "(finishedEnv ?out)\<lparr>storageUpload := (\<lambda>bucket path. UploadError ''Bucket not found'')\<rparr>"
  let ?eC = "(finishedEnv ?out)\<lparr>storageUpload := (\<lambda>bucket path. UploadError ''The resource already exists'')\<rparr>"
  let ?mB = \<open>''Upload failed. Please ensure the "composite-images" bucket exists in your Supabase project and has proper permissions.''\<close>
  have h1: "generations ?w ''gen-1'' = Some ?g"
    by (simp add: sampleWorld_def sampleRow_def)
  have h2: "''gen-1'' \<noteq> []" by simp
  have h3: "status ?g = ''processing''" by (simp add: sampleRow_def)
  have pA: "fst (checkStatus TryOn ?eA (external_id ?g) ?w) = Returned ?ps"
    by (simp add: checkPredictionStatus_def finishedEnv_def sampleEnv_def predictionReply_def)
  have pB: "fst (checkStatus Composite ?eB (external_id ?g) ?w) = Returned ?ps"
    by (simp add: checkJobStatus_def finishedEnv_def sampleEnv_def predictionReply_def
        truthyStr_def)
  have pC: "fst (checkStatus TryOn ?eC (external_id ?g) ?w) = Returned ?ps"
    by (simp add: checkPredictionStatus_def finishedEnv_def sampleEnv_def predictionReply_def)
  have s1: "succeededStatus TryOn (pollStatus ?ps)" by simp
  have s2: "succeededStatus Composite (pollStatus ?ps)" by simp
  have t1: "truthy (outputUrl TryOn (pollOutput ?ps))" by (simp add: extractImageUrl_def)
  have t2: "truthy (outputUrl Composite (pollOutput ?ps))" by simp
  have dA: "\<not> downloadOk ?eA (outputUrl TryOn (pollOutput ?ps))" by simp
  have dB: "downloadOk ?eB (outputUrl Composite (pollOutput ?ps))"
    by (simp add: finishedEnv_def sampleEnv_def)
  have dC: "downloadOk ?eC (outputUrl TryOn (pollOutput ?ps))"
    by (simp add: finishedEnv_def sampleEnv_def)
  have uB: "uploadErrorOf ?eB (bucketOf Composite) (outputPath ?eB Composite ''gen-1'') = Some ?mB"
    by (simp add: uploadErrorOf_def uploadImage_def bucketMessage_def startsWith_def)
  have uC: "uploadErrorOf ?eC (bucketOf TryOn) (outputPath ?eC TryOn ''gen-1'')
              = Some ''The resource already exists''"
    by (simp add: uploadErrorOf_def uploadImage_def bucketMessage_def startsWith_def)
  have bB: "bucketRelated ?mB" by (simp add: bucketRelated_def startsWith_def)
  have bC: "\<not> bucketRelated ''The resource already exists''"
    by (simp add: bucketRelated_def startsWith_def)
  note A = storage_failure_recorded [OF h1 h2 h3 pA s1 t1]
  note B = storage_failure_recorded [OF h1 h2 h3 pB s2 t2, of ?mB]
  note C = storage_failure_recorded [OF h1 h2 h3 pC s1 t1, of "''The resource already exists''"]
  have rA: "recordedFailure ''gen-1'' ''Failed to download or process the generated image''
              (GET TryOn ?eA (Some ''gen-1'') ?w)"
    using A dA by blast
  have rB: \<open>recordedFailure ''gen-1''
              (''Storage configuration issue: '' @ ?mB
               @ ''. Please ensure the "'' @ bucketOf Composite
               @ ''" bucket exists in your Supabase project.'')
              (GET Composite ?eB (Some ''gen-1'') ?w)\<close>
    using B dB uB bB by blast
  have rC: "recordedFailure ''gen-1''
              (''Failed to store the generated image: '' @ ''The resource already exists'')
              (GET TryOn ?eC (Some ''gen-1'') ?w)"
    using C dC uC bC by blast
  have tA: "truthy (outputUrl TryOn ?out)" using t1 by simp
  have dA': "\<not> downloadOk ?eA (outputUrl TryOn ?out)" by simp
  show ?thesis
    using tA dA' rA bB rB bC rC by simp
qed

section \<open>Progress\<close>

lemma downloadAndStore_status:
  "fst (fst (downloadAndStore e bucket label gid u sp0 err0 w)) = ''completed''
   \<or> fst (fst (downloadAndStore e bucket label gid u sp0 err0 w)) = ''failed''"
  by (cases "downloadOk e u")
     (simp_all add: fst_downloadAndStore downloadAndStore_throws split: option.splits)

lemma GET_processing_fields:
  assumes "generations w gid = Some g" and "gid \<noteq> []" and "status g = ''processing''"
    and "checkStatus ep e (external_id g) w = (Returned ps, w1)"
    and "fst (advance ep e gid g ps w1) = Returned (st, pr, sp, er)"
  shows "map_option resProgress (projectionOf (fst (GET ep e (Some gid) w))) = Some pr"
    and "map_option resStatus (projectionOf (fst (GET ep e (Some gid) w))) = Some st"
    and "map_option resError (projectionOf (fst (GET ep e (Some gid) w))) = Some er"
    and "map_option progress (generations (snd (GET ep e (Some gid) w)) gid) = Some (Some pr)"
    and "map_option status (generations (snd (GET ep e (Some gid) w)) gid) = Some st"
    and "map_option error (generations (snd (GET ep e (Some gid) w)) gid) = Some er"
    and "map_option storage_path (generations (snd (GET ep e (Some gid) w)) gid) = Some sp"
proof -
  obtain w2 where a: "advance ep e gid g ps w1 = (Returned (st, pr, sp, er), w2)"
    using assms(5) by (cases "advance ep e gid g ps w1") simp
  note p = GET_processing [OF assms(1-4) a]
  from p(2) obtain url where u:
    "payload (fst (GET ep e (Some gid) w)) =
       StatusBody \<lparr>resId = gid, resStatus = st, resProgress = pr, resImageUrl = url,
         resError = er, dbgExternalId = external_id g, dbgStoragePath = sp,
         dbgBucketName = bucketOf ep, dbgMetadata = metadata g, dbgUpdatedAt = isoTime e 1\<rparr>"
    by blast
  show "map_option resProgress (projectionOf (fst (GET ep e (Some gid) w))) = Some pr"
    and "map_option resStatus (projectionOf (fst (GET ep e (Some gid) w))) = Some st"
    and "map_option resError (projectionOf (fst (GET ep e (Some gid) w))) = Some er"
    using u by (simp_all add: projectionOf_def)
  show "map_option progress (generations (snd (GET ep e (Some gid) w)) gid) = Some (Some pr)"
    and "map_option status (generations (snd (GET ep e (Some gid) w)) gid) = Some st"
    and "map_option error (generations (snd (GET ep e (Some gid) w)) gid) = Some er"
    and "map_option storage_path (generations (snd (GET ep e (Some gid) w)) gid) = Some sp"
    using p(3) by simp_all
qed

text \<open>
  Claim C3, as the code has it. A status check on a processing generation whose poll
  reports a status that is neither finished nor failed sets progress to 50 when the
  provider says processing and to 25 for every other such status, whatever was stored,
  in the row and in the answer, and leaves the generation processing; so progress does
  not go down as long as the stored progress is at most 25, or at most 50 with the
  provider saying processing. A check whose poll reports the job finished sets progress
  to exactly 100, in the row and in the answer, whether the generation ends completed or
  failed. (For the try-on handler the finished poll must carry an output field.)
\<close>

theorem progress_policy:
  assumes "generations w gid = Some g" and "gid \<noteq> []" and "status g = ''processing''"
    and "fst (checkStatus ep e (external_id g) w) = Returned ps"
  shows "(\<not> succeededStatus ep (pollStatus ps) \<and> pollStatus ps \<noteq> JStr ''failed'' \<longrightarrow>
            map_option resProgress (projectionOf (fst (GET ep e (Some gid) w)))
              = Some (if pollStatus ps = JStr ''processing'' then 50 else 25)
          \<and> map_option progress (generations (snd (GET ep e (Some gid) w)) gid)
              = Some (Some (if pollStatus ps = JStr ''processing'' then 50 else 25))
          \<and> map_option resStatus (projectionOf (fst (GET ep e (Some gid) w))) = Some ''processing''
          \<and> map_option status (generations (snd (GET ep e (Some gid) w)) gid)
              = Some ''processing''
          \<and> (progressOrZero g \<le> 25 \<or> pollStatus ps = JStr ''processing'' \<and> progressOrZero g \<le> 50
               \<longrightarrow> progressOrZero g \<le> (if pollStatus ps = JStr ''processing'' then 50 else 25)))
       \<and> (succeededStatus ep (pollStatus ps) \<and> (ep = Composite \<or> pollOutput ps \<noteq> JUndefined) \<longrightarrow>
            map_option resProgress (projectionOf (fst (GET ep e (Some gid) w))) = Some 100
          \<and> map_option progress (generations (snd (GET ep e (Some gid) w)) gid) = Some (Some 100)
          \<and> (map_option status (generations (snd (GET ep e (Some gid) w)) gid) = Some ''completed''
             \<or> map_option status (generations (snd (GET ep e (Some gid) w)) gid) = Some ''failed'')
          \<and> map_option resStatus (projectionOf (fst (GET ep e (Some gid) w)))
              = map_option status (generations (snd (GET ep e (Some gid) w)) gid))"
proof -
  obtain w1 where c: "checkStatus ep e (external_id g) w = (Returned ps, w1)"
    using assms(4) by (cases "checkStatus ep e (external_id g) w") simp
  have inprog: ?thesis
    if n: "\<not> succeededStatus ep (pollStatus ps)" "pollStatus ps \<noteq> JStr ''failed''"
  proof -
    have a: "fst (advance ep e gid g ps w1)
               = Returned (''processing'', (if pollStatus ps = JStr ''processing'' then 50 else 25),
                           storage_path g, error g)"
      using advance_in_progress [OF n, of e gid g w1] assms(3) by simp
    note f = GET_processing_fields [OF assms(1-3) c a]
    show ?thesis using f(1,2,4,5) n assms(1) by auto
  qed
  have fin: ?thesis
    if s: "succeededStatus ep (pollStatus ps)" "ep = Composite \<or> pollOutput ps \<noteq> JUndefined"
  proof (cases "truthy (outputUrl ep (pollOutput ps))")
    case True
    let ?d = "downloadAndStore e (bucketOf ep) (labelOf ep) gid (outputUrl ep (pollOutput ps))
                (storage_path g) (error g) w1"
    have a: "fst (advance ep e gid g ps w1) = Returned (fst (fst ?d), 100, snd (fst ?d))"
      by (rule fst_advance_download [OF s(1) True])
    obtain sp er where se: "snd (fst ?d) = (sp, er)" by (cases "snd (fst ?d)")
    note f = GET_processing_fields [OF assms(1-3) c a [unfolded se]]
    show ?thesis
      using f(1,2,4,5) s downloadAndStore_status [of e "bucketOf ep" "labelOf ep" gid
          "outputUrl ep (pollOutput ps)" "storage_path g" "error g" w1]
      by auto
  next
    case False
    have a: "fst (advance ep e gid g ps w1)
               = Returned (''failed'', 100, storage_path g,
                           JStr (noOutputMessage ep (pollOutput ps)))"
      using advance_no_output [OF s False, of e gid g w1] by simp
    note f = GET_processing_fields [OF assms(1-3) c a]
    show ?thesis using f(1,2,4,5) s by auto
  qed
  show ?thesis
    using inprog fin by blast
qed


text \<open>A try-on check that finds the job processing, and a composite check that finds it done.\<close>

theorem progress_policy_witness:
  "generations (sampleWorld (sampleRow ''processing'')) ''gen-1'' = Some (sampleRow ''processing'')
   \<and> status (sampleRow ''processing'') = ''processing''
   \<and> fst (checkStatus TryOn (reportingEnv (JStr ''processing'') JNull JNull)
            (external_id (sampleRow ''processing'')) (sampleWorld (sampleRow ''processing'')))
       = Returned (PollResult (JStr ''processing'') JNull JNull)
   \<and> map_option resProgress
        (projectionOf (fst (GET TryOn (reportingEnv (JStr ''processing'') JNull JNull)
                              (Some ''gen-1'') (sampleWorld (sampleRow ''processing'')))))
       = Some 50
   \<and> map_option progress
        (generations (snd (GET TryOn (reportingEnv (JStr ''processing'') JNull JNull)
                             (Some ''gen-1'') (sampleWorld (sampleRow ''processing'')))) ''gen-1'')
       = Some (Some 50)
   \<and> fst (checkStatus Composite (finishedEnv (JStr ''https://cdn/x.png''))
            (external_id (sampleRow ''processing'')) (sampleWorld (sampleRow ''processing'')))
       = Returned (PollResult (JStr ''succeeded'') (JStr ''https://cdn/x.png'') JNull)
   \<and> map_option resProgress
        (projectionOf (fst (GET Composite (finishedEnv (JStr ''https://cdn/x.png''))
                              (Some ''gen-1'') (sampleWorld (sampleRow ''processing'')))))
       = Some 100
   \<and> map_option progress
        (generations (snd (GET Composite (finishedEnv (JStr ''https://cdn/x.png''))
                             (Some ''gen-1'') (sampleWorld (sampleRow ''processing'')))) ''gen-1'')
       = Some (Some 100)"
proof -
  let ?w = "sampleWorld (sampleRow ''processing'')"
  let ?g = "sampleRow ''processing''"
  let ?eP = "reportingEnv (JStr ''processing'') JNull JNull"
  let ?eS = "finishedEnv (JStr ''https://cdn/x.png'')"
  let ?pP = "PollResult (JStr ''processing'') JNull JNull"
  let ?pS = "PollResult (JStr ''succeeded'') (JStr ''https://cdn/x.png'') JNull"
  have h1: "generations ?w ''gen-1'' = Some ?g"
    by (simp add: sampleWorld_def sampleRow_def)
  have h2: "''gen-1'' \<noteq> []" by simp
  have h3: "status ?g = ''processing''" by (simp add: sampleRow_def)
  have pP: "fst (checkStatus TryOn ?eP (external_id ?g) ?w) = Returned ?pP"
    by (simp add: checkPredictionStatus_def reportingEnv_def sampleEnv_def predictionReply_def)
  have pS: "fst (checkStatus Composite ?eS (external_id ?g) ?w) = Returned ?pS"
    by (simp add: checkJobStatus_def finishedEnv_def sampleEnv_def predictionReply_def
        truthyStr_def)
  note P = progress_policy [OF h1 h2 h3 pP]
  note S = progress_policy [OF h1 h2 h3 pS]
  have cP: "\<not> succeededStatus TryOn (pollStatus ?pP) \<and> pollStatus ?pP \<noteq> JStr ''failed''"
    by simp
  have cS: "succeededStatus Composite (pollStatus ?pS)
            \<and> (Composite = Composite \<or> pollOutput ?pS \<noteq> JUndefined)"
    by simp
  have rP: "map_option resProgress (projectionOf (fst (GET TryOn ?eP (Some ''gen-1'') ?w))) = Some 50
            \<and> map_option progress (generations (snd (GET TryOn ?eP (Some ''gen-1'') ?w)) ''gen-1'')
                = Some (Some 50)"
    using P cP by simp
  have rS: "map_option resProgress (projectionOf (fst (GET Composite ?eS (Some ''gen-1'') ?w)))
              = Some 100
            \<and> map_option progress
                (generations (snd (GET Composite ?eS (Some ''gen-1'') ?w)) ''gen-1'')
                = Some (Some 100)"
    using S cS by blast
  show ?thesis
    using h1 h3 pP pS rP rS by blast
qed

text \<open>
  The claim as first stated fails twice on the sample generation. A provider that
  reports processing and then canceled takes the progress from 50 back to 25 while the
  generation stays processing. And a poll that reports failed ends the generation with
  the progress it had, here 0, in the row and in the answer, not 100.
\<close>

theorem progress_counterexample:
  "map_option resProgress
     (projectionOf (fst (GET TryOn (reportingEnv (JStr ''processing'') JNull JNull) (Some ''gen-1'')
                           (sampleWorld (sampleRow ''processing''))))) = Some 50
   \<and> map_option resProgress
       (projectionOf
          (fst (GET TryOn (reportingEnv (JStr ''canceled'') JNull JNull) (Some ''gen-1'')
                  (snd (GET TryOn (reportingEnv (JStr ''processing'') JNull JNull) (Some ''gen-1'')
                          (sampleWorld (sampleRow ''processing''))))))) = Some 25
   \<and> map_option status
       (generations
          (snd (GET TryOn (reportingEnv (JStr ''canceled'') JNull JNull) (Some ''gen-1'')
                  (snd (GET TryOn (reportingEnv (JStr ''processing'') JNull JNull) (Some ''gen-1'')
                          (sampleWorld (sampleRow ''processing'')))))) ''gen-1'')
       = Some ''processing''
   \<and> map_option resStatus
       (projectionOf
          (fst (GET TryOn (reportingEnv (JStr ''failed'') JNull (JStr ''face not detected''))
                  (Some ''gen-1'') (sampleWorld (sampleRow ''processing''))))) = Some ''failed''
   \<and> map_option resProgress
       (projectionOf
          (fst (GET TryOn (reportingEnv (JStr ''failed'') JNull (JStr ''face not detected''))
                  (Some ''gen-1'') (sampleWorld (sampleRow ''processing''))))) = Some 0
   \<and> map_option progress
       (generations
          (snd (GET TryOn (reportingEnv (JStr ''failed'') JNull (JStr ''face not detected''))
                  (Some ''gen-1'') (sampleWorld (sampleRow ''processing'')))) ''gen-1'')
       = Some (Some 0)"
  by (simp add: GET_tryon_def checkPredictionStatus_def tryOnAdvance_def dbUpdate_def
      reportingEnv_def sampleEnv_def predictionReply_def sampleWorld_def sampleRow_def
      projectionOf_def corsNextResponse_def truthyStr_def templateNull_def progressOrZero_def
      jsOr_def Let_def logCall_def)

section \<open>Finding the output URL\<close>

lemma downloadAndStore_calls_download:
  "prefix (calls w @ [Download u]) (calls (snd (downloadAndStore e bucket label gid u sp0 err0 w)))"
proof (cases "downloadOk e u")
  case True
  have "prefix (calls (logCall (Download u) w))
          (calls (snd (downloadAndStore e bucket label gid u sp0 err0 w)))"
    using True by (simp only: snd_downloadAndStore if_False not_True_eq_False uploadImage_calls)
  then show ?thesis by simp
next
  case False
  then show ?thesis by (simp add: snd_downloadAndStore)
qed

lemma snd_advance_download:
  assumes "succeededStatus ep (pollStatus ps)" and "truthy (outputUrl ep (pollOutput ps))"
  shows "snd (advance ep e gid g ps w)
           = snd (downloadAndStore e (bucketOf ep) (labelOf ep) gid
                    (outputUrl ep (pollOutput ps)) (storage_path g) (error g) w)"
  by (simp add: advance_download [OF assms] split_def)

lemma snd_checkStatus_calls:
  "checkStatus ep e x w = (r, w1) \<Longrightarrow> prefix (calls w) (calls w1)"
  using snd_checkPredictionStatus [of e x w] snd_checkJobStatus [of e x w]
  by (cases ep) (auto split: if_splits)

lemma GET_processing_calls_failed:
  assumes "generations w gid = Some g" and "gid \<noteq> []" and "status g = ''processing''"
    and "checkStatus ep e (external_id g) w = (Returned ps, w1)"
    and "advance ep e gid g ps w1 = (Returned (''failed'', pr, sp, er), w2)"
  shows "calls (snd (GET ep e (Some gid) w)) = calls w2 @ [DbUpdate gid]"
  using assms
  by (cases ep)
     (auto simp add: GET_tryon_def GET_composite_def truthyStr_def templateNull_def Let_def
        split_def dbUpdate_def)

lemma probeProps_none:
  "\<forall>k\<in>set props. \<not> usable (getProp out k) \<Longrightarrow> probeProps out props = JNull"
  by (induction props) (auto simp add: usable_def)

lemma probeProps_first:
  "\<forall>k'\<in>set before. \<not> usable (getProp out k') \<Longrightarrow> usable (getProp out k) \<Longrightarrow>
     probeProps out (before @ k # after)
       = (if typeof (getProp out k) = ''string'' then getProp out k
          else arrayFirst (getProp out k))"
  by (induction before) (auto simp add: usable_def)

lemma extractImageUrl_obj: "extractImageUrl (JObj kvs) = probeProps (JObj kvs) possibleProps"
  by (simp add: extractImageUrl_def)

text \<open>
  Claim C1, as the code has it. Take a status check on a processing generation whose
  poll reports the job finished (for the try-on handler: with an output field). The
  handler downloads from a value found in the poll's output when that value is truthy,
  and otherwise ends the generation as failed, in the row and in the answer, with the
  error "No output image received from the API" (the try-on handler appends the output's
  type), without any download.

  The try-on handler finds that value by shape: a string is taken as it is, so an empty
  string yields nothing; a non-empty array yields its first element; any other object,
  and the empty array, is probed for \<^verbatim>\<open>image\<close>, \<^verbatim>\<open>url\<close>, \<^verbatim>\<open>output\<close>, \<^verbatim>\<open>result\<close>, \<^verbatim>\<open>generated_image\<close> in
  that order, and the first of them holding a non-empty string or a non-empty array
  decides: the string, or the array's first element. A key holding anything else is
  passed over, and an object with no such key yields nothing.

  The composite handler does not look into the output: it downloads from the output
  itself whenever that is truthy.
\<close>

theorem output_url_resolution:
  assumes "generations w gid = Some g" and "gid \<noteq> []" and "status g = ''processing''"
    and "checkStatus ep e (external_id g) w = (Returned ps, w1)"
    and "succeededStatus ep (pollStatus ps)"
    and "ep = Composite \<or> pollOutput ps \<noteq> JUndefined"
  shows "(truthy (outputUrl ep (pollOutput ps)) \<longrightarrow>
            prefix (calls w1 @ [Download (outputUrl ep (pollOutput ps))])
                   (calls (snd (GET ep e (Some gid) w))))
       \<and> (\<not> truthy (outputUrl ep (pollOutput ps)) \<longrightarrow>
            recordedFailure gid (noOutputMessage ep (pollOutput ps)) (GET ep e (Some gid) w)
            \<and> calls (snd (GET ep e (Some gid) w)) = calls w1 @ [DbUpdate gid])
       \<and> outputUrl TryOn (JStr s) = (if s = [] then JNull else JStr s)
       \<and> outputUrl TryOn (JArr (x # xs)) = x
       \<and> outputUrl TryOn (JArr []) = JNull
       \<and> ((\<forall>k\<in>set possibleProps. \<not> usable (getProp (JObj kvs) k)) \<longrightarrow>
            outputUrl TryOn (JObj kvs) = JNull)
       \<and> (possibleProps = before @ k # after
            \<and> (\<forall>k'\<in>set before. \<not> usable (getProp (JObj kvs) k'))
            \<and> usable (getProp (JObj kvs) k) \<longrightarrow>
            outputUrl TryOn (JObj kvs)
              = (if typeof (getProp (JObj kvs) k) = ''string'' then getProp (JObj kvs) k
                 else arrayFirst (getProp (JObj kvs) k)))
       \<and> outputUrl Composite (pollOutput ps) = pollOutput ps"
proof -
  have resolved: "prefix (calls w1 @ [Download (outputUrl ep (pollOutput ps))])
                    (calls (snd (GET ep e (Some gid) w)))"
    if t: "truthy (outputUrl ep (pollOutput ps))"
  proof -
    obtain r w2 where a: "advance ep e gid g ps w1 = (r, w2)"
      by (cases "advance ep e gid g ps w1")
    have "fst (advance ep e gid g ps w1)
            = Returned (fst (fst (downloadAndStore e (bucketOf ep) (labelOf ep) gid
                                   (outputUrl ep (pollOutput ps)) (storage_path g) (error g) w1)),
                        100,
                        snd (fst (downloadAndStore e (bucketOf ep) (labelOf ep) gid
                                   (outputUrl ep (pollOutput ps)) (storage_path g) (error g) w1)))"
      by (rule fst_advance_download [OF assms(5) t])
    then obtain st sp er where r: "r = Returned (st, 100, sp, er)"
      using a by (cases "snd (fst (downloadAndStore e (bucketOf ep) (labelOf ep) gid
                    (outputUrl ep (pollOutput ps)) (storage_path g) (error g) w1))") auto
    have "prefix (calls w1 @ [Download (outputUrl ep (pollOutput ps))]) (calls w2)"
      using snd_advance_download [OF assms(5) t, of e gid g w1] a
        downloadAndStore_calls_download [of w1 "outputUrl ep (pollOutput ps)" e "bucketOf ep"
          "labelOf ep" gid "storage_path g" "error g"]
      by simp
    moreover have "prefix (calls w2 @ [DbUpdate gid]) (calls (snd (GET ep e (Some gid) w)))"
      using GET_processing(5) [OF assms(1-4) a [unfolded r]] .
    ultimately show ?thesis
      by (meson append_prefixD prefix_order.trans)
  qed
  have unresolved:
    "recordedFailure gid (noOutputMessage ep (pollOutput ps)) (GET ep e (Some gid) w)
     \<and> calls (snd (GET ep e (Some gid) w)) = calls w1 @ [DbUpdate gid]"
    if f: "\<not> truthy (outputUrl ep (pollOutput ps))"
  proof -
    have a: "advance ep e gid g ps w1
               = (Returned (''failed'', 100, storage_path g,
                            JStr (noOutputMessage ep (pollOutput ps))), w1)"
      by (rule advance_no_output [OF assms(5,6) f])
    have "recordedFailure gid (noOutputMessage ep (pollOutput ps)) (GET ep e (Some gid) w)"
      using a by (intro recordedFailureI [OF assms(1-4)]) simp
    moreover have "calls (snd (GET ep e (Some gid) w)) = calls w1 @ [DbUpdate gid]"
      by (rule GET_processing_calls_failed [OF assms(1-4) a])
    ultimately show ?thesis by simp
  qed
  have shape1: "outputUrl TryOn (JStr s) = (if s = [] then JNull else JStr s)"
    by (simp add: extractImageUrl_def)
  have shape2: "outputUrl TryOn (JArr (x # xs)) = x"
    by (simp add: extractImageUrl_def)
  have shape3: "outputUrl TryOn (JArr []) = JNull"
    by (simp add: extractImageUrl_def possibleProps_def)
  have shape4: "outputUrl TryOn (JObj kvs) = JNull"
    if "\<forall>k\<in>set possibleProps. \<not> usable (getProp (JObj kvs) k)"
    using probeProps_none [OF that] by (simp add: extractImageUrl_obj)
  have shape5: "outputUrl TryOn (JObj kvs)
              = (if typeof (getProp (JObj kvs) k) = ''string'' then getProp (JObj kvs) k
                 else arrayFirst (getProp (JObj kvs) k))"
    if "possibleProps = before @ k # after"
      and "\<forall>k'\<in>set before. \<not> usable (getProp (JObj kvs) k')"
      and "usable (getProp (JObj kvs) k)"
    using probeProps_first [OF that(2,3), of after] that(1) by (simp add: extractImageUrl_obj)
  show ?thesis
    using resolved unresolved shape1 shape2 shape3 shape4 shape5 by simp
qed


text \<open>
  A try-on poll whose output is an array of two URLs, one whose output is an object with
  no known key, and an object in which \<^verbatim>\<open>url\<close> is found before \<^verbatim>\<open>output\<close>.
\<close>

theorem output_url_resolution_witness:
  "checkStatus TryOn (finishedEnv (JArr [JStr ''https://cdn/a.png'', JStr ''https://cdn/b.png'']))
      (external_id (sampleRow ''processing'')) (sampleWorld (sampleRow ''processing''))
     = (Returned (PollResult (JStr ''succeeded'')
                    (JArr [JStr ''https://cdn/a.png'', JStr ''https://cdn/b.png'']) JNull),
        (sampleWorld (sampleRow ''processing''))\<lparr>calls := [ProviderPoll (JStr ''pred-1'')]\<rparr>)
   \<and> outputUrl TryOn (JArr [JStr ''https://cdn/a.png'', JStr ''https://cdn/b.png''])
       = JStr ''https://cdn/a.png''
   \<and> prefix [ProviderPoll (JStr ''pred-1''), Download (JStr ''https://cdn/a.png'')]
        (calls (snd (GET TryOn
                       (finishedEnv (JArr [JStr ''https://cdn/a.png'', JStr ''https://cdn/b.png'']))
                       (Some ''gen-1'') (sampleWorld (sampleRow ''processing'')))))
   \<and> outputUrl TryOn (JObj [(''foo'', JStr ''bar'')]) = JNull
   \<and> recordedFailure ''gen-1'' ''No output image received from the API. Output format: object''
        (GET TryOn (finishedEnv (JObj [(''foo'', JStr ''bar'')])) (Some ''gen-1'')
           (sampleWorld (sampleRow ''processing'')))
   \<and> outputUrl TryOn (JObj [(''output'', JArr [JStr ''https://cdn/o.png'']),
                             (''url'', JStr ''https://cdn/u.png'')])
       = JStr ''https://cdn/u.png''"
proof -
  let ?w = "sampleWorld (sampleRow ''processing'')"
  let ?g = "sampleRow ''processing''"
  let ?w1 = "?w\<lparr>calls := [ProviderPoll (JStr ''pred-1'')]\<rparr>"
  let ?arr = "JArr [JStr ''https://cdn/a.png'', JStr ''https://cdn/b.png'']"
  let ?obj = "JObj [(''foo'', JStr ''bar'')]"
  let ?kvs = "[(''output'', JArr [JStr ''https://cdn/o.png'']), (''url'', JStr ''https://cdn/u.png'')]"
  have h1: "generations ?w ''gen-1'' = Some ?g"
    by (simp add: sampleWorld_def sampleRow_def)
  have h2: "''gen-1'' \<noteq> []" by simp
  have h3: "status ?g = ''processing''" by (simp add: sampleRow_def)
  have pA: "checkStatus TryOn (finishedEnv ?arr) (external_id ?g) ?w
              = (Returned (PollResult (JStr ''succeeded'') ?arr JNull), ?w1)"
    by (simp add: checkPredictionStatus_def finishedEnv_def sampleEnv_def predictionReply_def
        sampleWorld_def sampleRow_def logCall_def)
  have pO: "checkStatus TryOn (finishedEnv ?obj) (external_id ?g) ?w
              = (Returned (PollResult (JStr ''succeeded'') ?obj JNull), ?w1)"
    by (simp add: checkPredictionStatus_def finishedEnv_def sampleEnv_def predictionReply_def
        sampleWorld_def sampleRow_def logCall_def)
  have s1: "succeededStatus TryOn (pollStatus (PollResult (JStr ''succeeded'') ?arr JNull))"
    and s2: "succeededStatus TryOn (pollStatus (PollResult (JStr ''succeeded'') ?obj JNull))"
    by simp_all
  have d1: "TryOn = Composite \<or> pollOutput (PollResult (JStr ''succeeded'') ?arr JNull) \<noteq> JUndefined"
    and d2: "TryOn = Composite \<or> pollOutput (PollResult (JStr ''succeeded'') ?obj JNull) \<noteq> JUndefined"
    by simp_all
  have uA: "outputUrl TryOn ?arr = JStr ''https://cdn/a.png''"
    by (simp add: extractImageUrl_def)
  have uO: "outputUrl TryOn ?obj = JNull"
    by (simp add: extractImageUrl_def possibleProps_def)
  have split: "possibleProps = [''image''] @ ''url'' # [''output'', ''result'', ''generated_image'']"
    by (simp add: possibleProps_def)
  have before: "\<forall>k'\<in>set [''image'']. \<not> usable (getProp (JObj ?kvs) k')"
    by (simp add: usable_def)
  have here: "usable (getProp (JObj ?kvs) ''url'')"
    by (simp add: usable_def)
  note A = output_url_resolution [OF h1 h2 h3 pA s1 d1,
      of "[]" JNull "[]" ?kvs "[''image'']" "''url''" "[''output'', ''result'', ''generated_image'']",
      THEN conjunct1]
  note B = output_url_resolution [OF h1 h2 h3 pO s2 d2,
      of "[]" JNull "[]" ?kvs "[''image'']" "''url''" "[''output'', ''result'', ''generated_image'']"]
  have rA: "prefix [ProviderPoll (JStr ''pred-1''), Download (JStr ''https://cdn/a.png'')]
              (calls (snd (GET TryOn (finishedEnv ?arr) (Some ''gen-1'') ?w)))"
    using A uA by simp
  have rO: "recordedFailure ''gen-1'' ''No output image received from the API. Output format: object''
              (GET TryOn (finishedEnv ?obj) (Some ''gen-1'') ?w)"
    using B [THEN conjunct2, THEN conjunct1] uO by simp
  have "outputUrl TryOn (JObj ?kvs)
          = (if typeof (getProp (JObj ?kvs) ''url'') = ''string'' then getProp (JObj ?kvs) ''url''
             else arrayFirst (getProp (JObj ?kvs) ''url''))"
    using B split before here by blast
  then have rK: "outputUrl TryOn (JObj ?kvs) = JStr ''https://cdn/u.png''"
    by simp
  show ?thesis
    using pA uA rA uO rO rK by simp
qed

text \<open>
  The claim as first stated fails for the composite endpoint and at the edges of the
  try-on shapes. With downloads that throw on anything but a string, a composite poll
  whose output is an object with none of the five keys ends failed with the download
  error, not the no-output error; and for an output that has the key \<^verbatim>\<open>image\<close> the composite
  handler hands the whole object to the download. On the try-on endpoint an object whose
  \<^verbatim>\<open>image\<close> is a number, and the empty string, end failed with the no-output error although
  they are an object with a known key and a plain string.
\<close>

theorem output_url_resolution_counterexample:
  "map_option resStatus
     (projectionOf
        (fst (GET Composite
                ((finishedEnv (JObj [(''foo'', JStr ''bar'')]))
                   \<lparr>downloadOk := (\<lambda>u. typeof u = ''string'')\<rparr>)
                (Some ''gen-1'') (sampleWorld (sampleRow ''processing''))))) = Some ''failed''
   \<and> map_option resError
       (projectionOf
          (fst (GET Composite
                  ((finishedEnv (JObj [(''foo'', JStr ''bar'')]))
                     \<lparr>downloadOk := (\<lambda>u. typeof u = ''string'')\<rparr>)
                  (Some ''gen-1'') (sampleWorld (sampleRow ''processing'')))))
       = Some (JStr ''Failed to download or process the generated image'')
   \<and> calls
       (snd (GET Composite
               ((finishedEnv (JObj [(''image'', JStr ''https://cdn/x.png'')]))
                  \<lparr>downloadOk := (\<lambda>u. typeof u = ''string'')\<rparr>)
               (Some ''gen-1'') (sampleWorld (sampleRow ''processing''))))
       = [ProviderPoll (JStr ''pred-1''),
          Download (JObj [(''image'', JStr ''https://cdn/x.png'')]),
          DbUpdate ''gen-1'']
   \<and> map_option resError
       (projectionOf
          (fst (GET TryOn (finishedEnv (JObj [(''image'', JNum 42)])) (Some ''gen-1'')
                  (sampleWorld (sampleRow ''processing'')))))
       = Some (JStr ''No output image received from the API. Output format: object'')
   \<and> map_option resError
       (projectionOf
          (fst (GET TryOn (finishedEnv (JStr [])) (Some ''gen-1'')
                  (sampleWorld (sampleRow ''processing'')))))
       = Some (JStr ''No output image received from the API. Output format: string'')"
  by (simp add: GET_tryon_def GET_composite_def checkPredictionStatus_def checkJobStatus_def
      tryOnAdvance_def compositeAdvance_def downloadAndStore_def dbUpdate_def
      extractImageUrl_def possibleProps_def
      finishedEnv_def sampleEnv_def predictionReply_def sampleWorld_def sampleRow_def
      projectionOf_def corsNextResponse_def truthyStr_def templateNull_def Let_def logCall_def)

section \<open>Facts about the request schemas\<close>








section \<open>Validation of create requests\<close>






section \<open>Temporary images of the composite adapter\<close>

lemma dbCalls_logCall [simp]:
  "dbCalls (logCall c w) = dbCalls w @ (if isDbCall c then [c] else [])"
  by (simp add: dbCalls_def)

lemma dbCalls_objects_update [simp]: "dbCalls (w\<lparr>objects := x\<rparr>) = dbCalls w"
  by (simp add: dbCalls_def)

lemma pollForResults_frame:
  "generations (snd (pollForResults e pid k elapsed w)) = generations w
   \<and> objects (snd (pollForResults e pid k elapsed w)) = objects w
   \<and> dbCalls (snd (pollForResults e pid k elapsed w)) = dbCalls w"
proof (induction e pid k elapsed w rule: pollForResults.induct)
  case (1 e predictionId k elapsed w)
  show ?case
  proof (cases "elapsed < MAX_TIMEOUT")
    case False
    then show ?thesis by (simp add: pollForResults.simps)
  next
    case True
    show ?thesis
    proof (cases "pollRound e k")
      case (Finished r)
      then show ?thesis using True by (simp add: pollForResults.simps)
    next
      case Continue
      have "pollForResults e predictionId k elapsed w
              = pollForResults e predictionId (Suc k) (elapsed + pollLatency e k + POLL_INTERVAL)
                  (logCall (ProviderPoll predictionId) w)"
        using True Continue by (simp add: pollForResults.simps)
      then show ?thesis using "1.IH" [OF True Continue] by simp
    qed
  qed
qed



lemma uploadImage_frame:
  "generations (snd (uploadImage e bucket path w)) = generations w
   \<and> dbCalls (snd (uploadImage e bucket path w)) = dbCalls w"
  by (simp add: uploadImage_def Let_def split: upload_reply.splits)

lemma getImageUrl_frame:
  "generations (snd (getImageUrl e n bucket path w)) = generations w
   \<and> objects (snd (getImageUrl e n bucket path w)) = objects w
   \<and> dbCalls (snd (getImageUrl e n bucket path w)) = dbCalls w"
  by (simp add: getImageUrl_world)

lemma uploadImagesToSupabase_frame:
  "generations (snd (uploadImagesToSupabase e m s w)) = generations w
   \<and> dbCalls (snd (uploadImagesToSupabase e m s w)) = dbCalls w"
  by (simp add: uploadImagesToSupabase_def Let_def split_def uploadImage_frame getImageUrl_frame
      split: option.splits)

lemma createPrediction_frame:
  "generations (snd (createPrediction e f s p w)) = generations w
   \<and> objects (snd (createPrediction e f s p w)) = objects w
   \<and> dbCalls (snd (createPrediction e f s p w)) = dbCalls w"
  by (simp add: createPrediction_def Let_def split: http_reply.splits sum.splits)

lemma deleteImage_frame:
  "generations (snd (deleteImage e bucket path w)) = generations w
   \<and> dbCalls (snd (deleteImage e bucket path w)) = dbCalls w"
  by (simp add: deleteImage_def Let_def split: remove_reply.splits)

lemma cleanupTempImages_frame:
  "generations (cleanupTempImages e paths w) = generations w
   \<and> dbCalls (cleanupTempImages e paths w) = dbCalls w"
  by (simp add: cleanupTempImages_def Let_def split_def deleteImage_frame)

lemma generateCompositeTry_frame:
  "generations (snd (snd (generateCompositeTry e f s p u w))) = generations w
   \<and> dbCalls (snd (snd (generateCompositeTry e f s p u w))) = dbCalls w"
proof (cases "truthyStr (apiKey e)")
  case False
  then show ?thesis by (simp add: generateCompositeTry_def)
next
  case True
  let ?U = "if u \<and> (startsWith f ''data:'' \<or> startsWith s ''data:'')
            then uploadImagesToSupabase e f s w
            else (Returned (f, s, noPaths), w)"
  have U: "generations (snd ?U) = generations w \<and> dbCalls (snd ?U) = dbCalls w"
    using uploadImagesToSupabase_frame [of e f s w] by simp
  obtain r1 w1 where u1: "?U = (r1, w1)" by (cases ?U)
  show ?thesis
  proof (cases r1)
    case (Threw m)
    then show ?thesis using True u1 U by (simp add: generateCompositeTry_def)
  next
    case (Returned x)
    obtain fu su paths where x: "x = (fu, su, paths)" by (cases x) auto
    obtain r2 w2 where c: "createPrediction e fu su p w1 = (r2, w2)"
      by (cases "createPrediction e fu su p w1")
    have W2: "generations w2 = generations w \<and> dbCalls w2 = dbCalls w"
      using createPrediction_frame [of e fu su p w1] c u1 U by simp
    show ?thesis
    proof (cases r2)
      case (Threw m)
      then show ?thesis using True u1 Returned x c W2 by (simp add: generateCompositeTry_def)
    next
      case r2: (Returned pid)
      obtain r3 w3 where q: "pollForResults e pid 0 0 w2 = (r3, w3)"
        by (cases "pollForResults e pid 0 0 w2")
      have W3: "generations w3 = generations w \<and> dbCalls w3 = dbCalls w"
        using pollForResults_frame [of e pid 0 0 w2] q W2 by simp
      show ?thesis using True u1 Returned x c r2 q W3
        by (cases r3) (simp_all add: generateCompositeTry_def)
    qed
  qed
qed

lemma generateComposite_frame:
  "generations (snd (generateComposite e f s p u w)) = generations w
   \<and> dbCalls (snd (generateComposite e f s p u w)) = dbCalls w"
proof -
  obtain r paths w1 where t: "generateCompositeTry e f s p u w = (r, paths, w1)"
    by (cases "generateCompositeTry e f s p u w") auto
  then have "generations w1 = generations w \<and> dbCalls w1 = dbCalls w"
    using generateCompositeTry_frame [of e f s p u w] by simp
  then show ?thesis using t
    by (cases r) (simp_all add: generateComposite_def cleanupTempImages_frame)
qed

lemma uploadImage_ok:
  "uploadImage e bucket path w = (None, w1) \<Longrightarrow> (bucket, path) \<in> objects w1"
  by (auto simp add: uploadImage_def Let_def split: upload_reply.splits if_splits)

lemma uploadImage_objects_mono:
  "objects w \<subseteq> objects (snd (uploadImage e bucket path w))"
  by (auto simp add: uploadImage_def Let_def split: upload_reply.splits if_splits)

lemma uploadImagesToSupabase_returned:
  assumes "uploadImagesToSupabase e m s w = (Returned (mu, su, paths), w1)"
  shows "paths = \<lparr>modelPath = Some (tempModelPath e), scenePath = Some (tempScenePath e)\<rparr>"
    and "(''temp-bucket'', tempModelPath e) \<in> objects w1"
    and "(''temp-bucket'', tempScenePath e) \<in> objects w1"
proof -
  let ?mp = "tempModelPath e" and ?sp = "tempScenePath e"
  obtain r1 wa where a: "uploadImage e ''temp-bucket'' ?mp w = (r1, wa)"
    by (cases "uploadImage e ''temp-bucket'' ?mp w")
  obtain r2 wb where b: "uploadImage e ''temp-bucket'' ?sp wa = (r2, wb)"
    by (cases "uploadImage e ''temp-bucket'' ?sp wa")
  from assms a b have r: "r1 = None" "r2 = None"
    by (auto simp add: uploadImagesToSupabase_def tempModelPath_def tempScenePath_def Let_def
          split: option.splits prod.splits)
  from assms a b r show "paths = \<lparr>modelPath = Some ?mp, scenePath = Some ?sp\<rparr>"
    by (auto simp add: uploadImagesToSupabase_def tempModelPath_def tempScenePath_def Let_def
          split: option.splits prod.splits)
  from assms a b r have w1: "objects w1 = objects wb"
    by (auto simp add: uploadImagesToSupabase_def tempModelPath_def tempScenePath_def Let_def
          getImageUrl_world split_def split: option.splits)
  have "(''temp-bucket'', ?mp) \<in> objects wa" using a r(1) uploadImage_ok by blast
  moreover have "objects wa \<subseteq> objects wb"
    using uploadImage_objects_mono [of wa e "''temp-bucket''" ?sp] b by simp
  ultimately show "(''temp-bucket'', ?mp) \<in> objects w1" using w1 by blast
  show "(''temp-bucket'', ?sp) \<in> objects w1" using b r(2) uploadImage_ok w1 by blast
qed

lemma cleanupTempImages_removes:
  assumes "storageRemove e ''temp-bucket'' mp = RemoveOk"
    and "storageRemove e ''temp-bucket'' sp = RemoveOk"
    and "mp \<noteq> []" and "sp \<noteq> []"
  shows "objects (cleanupTempImages e \<lparr>modelPath = Some mp, scenePath = Some sp\<rparr> w)
           = objects w - {(''temp-bucket'', mp)} - {(''temp-bucket'', sp)}"
    and "calls (cleanupTempImages e \<lparr>modelPath = Some mp, scenePath = Some sp\<rparr> w)
           = calls w @ [StorageRemove ''temp-bucket'' mp, StorageRemove ''temp-bucket'' sp]"
  using assms
  by (simp_all add: cleanupTempImages_def deleteImage_def Let_def truthyStr_def
        templateUndefined_def)

lemma generateCompositeTry_paths:
  assumes "uploadImagesToSupabase e f s w = (Returned (mu, su, paths), w1)"
    and "startsWith f ''data:'' \<or> startsWith s ''data:''"
    and "truthyStr (apiKey e)"
  shows "fst (snd (generateCompositeTry e f s p True w)) = paths"
  using assms
  by (auto simp add: generateCompositeTry_def split: prod.splits outcome.splits)

text \<open>
  Claim C9. Take a call of \<^verbatim>\<open>generateComposite\<close> with an API key and inline image data in
  which both images were uploaded to their temporary paths and got their URLs. Whatever
  happens next (the provider rejects the submission, a status request fails, the job
  fails, the polling times out, or the job succeeds), the call ends with the two removal
  requests for the temporary objects, and with an artifact store that carries those
  removals out neither object is left when the call returns.
\<close>

theorem temp_images_cleaned:
  assumes "uploadImagesToSupabase e figureImage sceneImage w = (Returned (mu, su, paths), w1)"
    and "startsWith figureImage ''data:'' \<or> startsWith sceneImage ''data:''"
    and "truthyStr (apiKey e)"
    and "storageRemove e ''temp-bucket'' (tempModelPath e) = RemoveOk"
    and "storageRemove e ''temp-bucket'' (tempScenePath e) = RemoveOk"
  shows "(''temp-bucket'', tempModelPath e) \<in> objects w1
       \<and> (''temp-bucket'', tempScenePath e) \<in> objects w1
       \<and> (''temp-bucket'', tempModelPath e)
            \<notin> objects (snd (generateComposite e figureImage sceneImage p True w))
       \<and> (''temp-bucket'', tempScenePath e)
            \<notin> objects (snd (generateComposite e figureImage sceneImage p True w))
       \<and> suffix [StorageRemove ''temp-bucket'' (tempModelPath e),
                  StorageRemove ''temp-bucket'' (tempScenePath e)]
            (calls (snd (generateComposite e figureImage sceneImage p True w)))"
proof -
  note up = uploadImagesToSupabase_returned [OF assms(1)]
  obtain r tp w2 where t: "generateCompositeTry e figureImage sceneImage p True w = (r, tp, w2)"
    by (cases "generateCompositeTry e figureImage sceneImage p True w") auto
  have tp: "tp = \<lparr>modelPath = Some (tempModelPath e), scenePath = Some (tempScenePath e)\<rparr>"
    using generateCompositeTry_paths [OF assms(1-3), of p] t up(1) by simp
  have keys: "hasKeys tp" using tp by (simp add: hasKeys_def)
  have g: "snd (generateComposite e figureImage sceneImage p True w) = cleanupTempImages e tp w2"
    using t keys by (cases r) (simp_all add: generateComposite_def)
  have ne: "tempModelPath e \<noteq> []" "tempScenePath e \<noteq> []"
    by (simp_all add: tempModelPath_def tempScenePath_def)
  note c = cleanupTempImages_removes [OF assms(4,5) ne, of w2]
  show ?thesis
    using up(2,3) g c tp by (simp add: suffix_def)
qed

lemmas combiner_eval =
  generateComposite_def generateCompositeTry_def uploadImagesToSupabase_def base64ToFile_def
  uploadImage_def getImageUrl_def createPrediction_def pollForResults.simps pollRound_def
  cleanupTempImages_def deleteImage_def hasKeys_def noPaths_def truthyStr_def startsWith_def
  templateNull_def templateUndefined_def jsOr_def logCall_def Let_def MAX_TIMEOUT_def
  POLL_INTERVAL_def finishedEnv_def reportingEnv_def sampleEnv_def predictionReply_def
  sampleWorld_def sampleRow_def tempModelPath_def tempScenePath_def

text \<open>
  The four ways out on the sample request: the job succeeds, the submission is rejected,
  the job fails, and the polling times out.
\<close>

theorem temp_images_cleaned_witness:
  "fst (uploadImagesToSupabase sampleEnv ''data:image/png;base64,AAAA''
          ''data:image/png;base64,BBBB'' (sampleWorld (sampleRow ''processing'')))
     = Returned (''https://signed/temp-bucket/temp/tmp-1-model.jpg'',
                 ''https://signed/temp-bucket/temp/tmp-1-scene.jpg'',
                 \<lparr>modelPath = Some ''temp/tmp-1-model.jpg'',
                  scenePath = Some ''temp/tmp-1-scene.jpg''\<rparr>)
   \<and> fst (generateComposite (finishedEnv (JStr ''https://cdn/x.png''))
            ''data:image/png;base64,AAAA'' ''data:image/png;base64,BBBB''
            ''a figure in a park'' True (sampleWorld (sampleRow ''processing'')))
       = Returned (JStr ''https://cdn/x.png'', JStr ''pred-2'')
   \<and> (''temp-bucket'', ''temp/tmp-1-model.jpg'')
        \<notin> objects (snd (generateComposite (finishedEnv (JStr ''https://cdn/x.png''))
            ''data:image/png;base64,AAAA'' ''data:image/png;base64,BBBB''
            ''a figure in a park'' True (sampleWorld (sampleRow ''processing''))))
   \<and> (''temp-bucket'', ''temp/tmp-1-scene.jpg'')
        \<notin> objects (snd (generateComposite (finishedEnv (JStr ''https://cdn/x.png''))
            ''data:image/png;base64,AAAA'' ''data:image/png;base64,BBBB''
            ''a figure in a park'' True (sampleWorld (sampleRow ''processing''))))
   \<and> fst (generateComposite
            (sampleEnv\<lparr>createReply := Reply False 422 ''Unprocessable Entity'' ''{}''
                                        (Inr (JObj [(''message'', JStr ''bad input'')]))\<rparr>)
            ''data:image/png;base64,AAAA'' ''data:image/png;base64,BBBB''
            ''a figure in a park'' True (sampleWorld (sampleRow ''processing'')))
       = Threw ''AI Image Combiner API error: bad input''
   \<and> (''temp-bucket'', ''temp/tmp-1-model.jpg'')
        \<notin> objects (snd (generateComposite
            (sampleEnv\<lparr>createReply := Reply False 422 ''Unprocessable Entity'' ''{}''
                                        (Inr (JObj [(''message'', JStr ''bad input'')]))\<rparr>)
            ''data:image/png;base64,AAAA'' ''data:image/png;base64,BBBB''
            ''a figure in a park'' True (sampleWorld (sampleRow ''processing''))))
   \<and> fst (generateComposite (reportingEnv (JStr ''failed'') JNull (JStr ''face not detected''))
            ''data:image/png;base64,AAAA'' ''data:image/png;base64,BBBB''
            ''a figure in a park'' True (sampleWorld (sampleRow ''processing'')))
       = Threw ''Prediction failed: face not detected''
   \<and> (''temp-bucket'', ''temp/tmp-1-model.jpg'')
        \<notin> objects (snd (generateComposite
            (reportingEnv (JStr ''failed'') JNull (JStr ''face not detected''))
            ''data:image/png;base64,AAAA'' ''data:image/png;base64,BBBB''
            ''a figure in a park'' True (sampleWorld (sampleRow ''processing''))))
   \<and> fst (generateComposite (sampleEnv\<lparr>pollLatency := (\<lambda>k. 600000)\<rparr>)
            ''data:image/png;base64,AAAA'' ''data:image/png;base64,BBBB''
            ''a figure in a park'' True (sampleWorld (sampleRow ''processing'')))
       = Threw ''Prediction timed out after 10 minutes''
   \<and> (''temp-bucket'', ''temp/tmp-1-model.jpg'')
        \<notin> objects (snd (generateComposite (sampleEnv\<lparr>pollLatency := (\<lambda>k. 600000)\<rparr>)
            ''data:image/png;base64,AAAA'' ''data:image/png;base64,BBBB''
            ''a figure in a park'' True (sampleWorld (sampleRow ''processing''))))"
proof -
  let ?w = "sampleWorld (sampleRow ''processing'')"
  let ?f = "''data:image/png;base64,AAAA''" and ?s = "''data:image/png;base64,BBBB''"
  let ?p = "''a figure in a park''"
  let ?e1 = "finishedEnv (JStr ''https://cdn/x.png'')"
  let ?e2 = "sampleEnv\<lparr>createReply := Reply False 422 ''Unprocessable Entity'' ''{}''
                                        (Inr (JObj [(''message'', JStr ''bad input'')]))\<rparr>"
  let ?e3 = "reportingEnv (JStr ''failed'') JNull (JStr ''face not detected'')"
  let ?e4 = "sampleEnv\<lparr>pollLatency := (\<lambda>k. 600000)\<rparr>"
  let ?ret = "Returned (''https://signed/temp-bucket/temp/tmp-1-model.jpg'',
                 ''https://signed/temp-bucket/temp/tmp-1-scene.jpg'',
                 \<lparr>modelPath = Some ''temp/tmp-1-model.jpg'',
                  scenePath = Some ''temp/tmp-1-scene.jpg''\<rparr>)"
  have u0: "fst (uploadImagesToSupabase sampleEnv ?f ?s ?w) = ?ret"
    by (simp add: combiner_eval)
  have u1: "fst (uploadImagesToSupabase ?e1 ?f ?s ?w) = ?ret"
    and u2: "fst (uploadImagesToSupabase ?e2 ?f ?s ?w) = ?ret"
    and u3: "fst (uploadImagesToSupabase ?e3 ?f ?s ?w) = ?ret"
    and u4: "fst (uploadImagesToSupabase ?e4 ?f ?s ?w) = ?ret"
    by (simp_all add: combiner_eval)
  have d: "startsWith ?f ''data:'' \<or> startsWith ?s ''data:''"
    by (simp add: startsWith_def)
  have k: "truthyStr (apiKey ?e1)" "truthyStr (apiKey ?e2)" "truthyStr (apiKey ?e3)"
    "truthyStr (apiKey ?e4)"
    by (simp_all add: combiner_eval)
  have rm: "storageRemove ?e1 ''temp-bucket'' (tempModelPath ?e1) = RemoveOk"
    "storageRemove ?e1 ''temp-bucket'' (tempScenePath ?e1) = RemoveOk"
    "storageRemove ?e2 ''temp-bucket'' (tempModelPath ?e2) = RemoveOk"
    "storageRemove ?e2 ''temp-bucket'' (tempScenePath ?e2) = RemoveOk"
    "storageRemove ?e3 ''temp-bucket'' (tempModelPath ?e3) = RemoveOk"
    "storageRemove ?e3 ''temp-bucket'' (tempScenePath ?e3) = RemoveOk"
    "storageRemove ?e4 ''temp-bucket'' (tempModelPath ?e4) = RemoveOk"
    "storageRemove ?e4 ''temp-bucket'' (tempScenePath ?e4) = RemoveOk"
    by (simp_all add: combiner_eval)
  have pth: "tempModelPath ?e1 = ''temp/tmp-1-model.jpg''"
    "tempScenePath ?e1 = ''temp/tmp-1-scene.jpg''"
    "tempModelPath ?e2 = ''temp/tmp-1-model.jpg''"
    "tempModelPath ?e3 = ''temp/tmp-1-model.jpg''"
    "tempModelPath ?e4 = ''temp/tmp-1-model.jpg''"
    by (simp_all add: combiner_eval)
  obtain w1 where x1: "uploadImagesToSupabase ?e1 ?f ?s ?w = (?ret, w1)"
    using u1 by (cases "uploadImagesToSupabase ?e1 ?f ?s ?w") simp
  obtain w2 where x2: "uploadImagesToSupabase ?e2 ?f ?s ?w = (?ret, w2)"
    using u2 by (cases "uploadImagesToSupabase ?e2 ?f ?s ?w") simp
  obtain w3 where x3: "uploadImagesToSupabase ?e3 ?f ?s ?w = (?ret, w3)"
    using u3 by (cases "uploadImagesToSupabase ?e3 ?f ?s ?w") simp
  obtain w4 where x4: "uploadImagesToSupabase ?e4 ?f ?s ?w = (?ret, w4)"
    using u4 by (cases "uploadImagesToSupabase ?e4 ?f ?s ?w") simp
  note T1 = temp_images_cleaned [OF x1 d k(1) rm(1,2), of ?p]
  note T2 = temp_images_cleaned [OF x2 d k(2) rm(3,4), of ?p]
  note T3 = temp_images_cleaned [OF x3 d k(3) rm(5,6), of ?p]
  note T4 = temp_images_cleaned [OF x4 d k(4) rm(7,8), of ?p]
  have r1: "fst (generateComposite ?e1 ?f ?s ?p True ?w)
              = Returned (JStr ''https://cdn/x.png'', JStr ''pred-2'')"
    by (simp add: combiner_eval)
  have r2: "fst (generateComposite ?e2 ?f ?s ?p True ?w)
              = Threw ''AI Image Combiner API error: bad input''"
    by (simp add: combiner_eval)
  have r3: "fst (generateComposite ?e3 ?f ?s ?p True ?w)
              = Threw ''Prediction failed: face not detected''"
    by (simp add: combiner_eval)
  have r4: "fst (generateComposite ?e4 ?f ?s ?p True ?w)
              = Threw ''Prediction timed out after 10 minutes''"
    by (simp add: combiner_eval)
  show ?thesis
    using u0 r1 r2 r3 r4 T1 T2 T3 T4 unfolding pth by blast
qed

section \<open>A submit that fails\<close>

lemma zStringMin_Inr: "zStringMin n msg v = Inr s \<Longrightarrow> v = JStr s \<and> n \<le> length s"
  by (auto simp add: zStringMin_def split: json.splits if_splits)

lemma zStringMinMax_Inr:
  "zStringMinMax n a m b v = Inr s \<Longrightarrow> v = JStr s \<and> n \<le> length s \<and> length s \<le> m"
  by (auto simp add: zStringMinMax_def Let_def split: json.splits if_splits)

lemma TryOnRequestSchema_valid:
  assumes "TryOnRequestSchema b = Inr d"
  shows "modelImageBase64 d \<noteq> []" and "clothingImageBase64 d \<noteq> []"
    and "5 \<le> length (prompt d)" and "length (prompt d) \<le> 1000"
proof -
  obtain kvs where b: "b = JObj kvs"
    using assms by (cases b) (simp_all add: TryOnRequestSchema_def)
  let ?r1 = "zStringMin 1 ''Model image data is required'' (getProp b ''modelImageBase64'')"
  let ?r2 = "zStringMin 1 ''Clothing image data is required'' (getProp b ''clothingImageBase64'')"
  let ?r5 = "zDefault ''A person wearing clothing''
               (zStringMinMax 5 ''Please provide a descriptive prompt (at least 5 characters)''
                  1000 ''Prompt is too long (maximum 1000 characters)'')
               (getProp b ''prompt'')"
  from assms b have r: "?r1 = Inr (modelImageBase64 d)" "?r2 = Inr (clothingImageBase64 d)"
      "?r5 = Inr (prompt d)"
    by (auto simp add: TryOnRequestSchema_def Let_def split: sum.splits simp del: getProp.simps)
  from r(1) show "modelImageBase64 d \<noteq> []" by (auto dest: zStringMin_Inr)
  from r(2) show "clothingImageBase64 d \<noteq> []" by (auto dest: zStringMin_Inr)
  from r(3) show "5 \<le> length (prompt d)" and "length (prompt d) \<le> 1000"
    by (auto simp add: zDefault_def dest: zStringMinMax_Inr split: if_splits)
qed

lemma CompositeRequestSchema_valid:
  assumes "CompositeRequestSchema b = Inr d"
  shows "figureImageBase64 d \<noteq> []" and "sceneImageBase64 d \<noteq> []"
    and "10 \<le> length (compositePrompt d)" and "length (compositePrompt d) \<le> 1000"
proof -
  obtain kvs where b: "b = JObj kvs"
    using assms by (cases b) (simp_all add: CompositeRequestSchema_def)
  let ?r1 = "zStringMin 1 ''Figure image data is required'' (getProp b ''figureImageBase64'')"
  let ?r2 = "zStringMin 1 ''Scene image data is required'' (getProp b ''sceneImageBase64'')"
  let ?r5 = "zStringMinMax 10 ''Please provide a detailed prompt (at least 10 characters)''
               1000 ''Prompt is too long (maximum 1000 characters)'' (getProp b ''prompt'')"
  from assms b have r: "?r1 = Inr (figureImageBase64 d)" "?r2 = Inr (sceneImageBase64 d)"
      "?r5 = Inr (compositePrompt d)"
    by (auto simp add: CompositeRequestSchema_def Let_def split: sum.splits
          simp del: getProp.simps)
  from r(1) show "figureImageBase64 d \<noteq> []" by (auto dest: zStringMin_Inr)
  from r(2) show "sceneImageBase64 d \<noteq> []" by (auto dest: zStringMin_Inr)
  from r(3) show "10 \<le> length (compositePrompt d)" and "length (compositePrompt d) \<le> 1000"
    by (auto dest: zStringMinMax_Inr)
qed

lemma generateTryOn_frame:
  "snd (generateTryOn e m c p w) = logCall (ProviderSubmit m c p) w"
  by (simp add: generateTryOn_def Let_def split: http_reply.splits sum.splits)

text \<open>
  Claim C5. A create request that passes validation and whose provider submit call
  throws (for try-on \<^verbatim>\<open>generateTryOn\<close>, for composite \<^verbatim>\<open>generateComposite\<close>) is answered HTTP 500
  with the thrown message, and the record store is as before: no row is inserted and no
  write is requested.
\<close>

theorem submit_failure_no_record:
  "(TryOnRequestSchema b = Inr d
      \<and> fst (generateTryOn e (modelImageBase64 d) (clothingImageBase64 d) (prompt d) w) = Threw m
     \<longrightarrow> httpStatus (fst (POST TryOn e \<lparr>userIdHeader = u, bodyJson = Inr b\<rparr> w)) = 500
         \<and> payload (fst (POST TryOn e \<lparr>userIdHeader = u, bodyJson = Inr b\<rparr> w))
             = ErrorBody ''Failed to initiate try-on generation'' (Some m)
         \<and> generations (snd (POST TryOn e \<lparr>userIdHeader = u, bodyJson = Inr b\<rparr> w))
             = generations w
         \<and> dbCalls (snd (POST TryOn e \<lparr>userIdHeader = u, bodyJson = Inr b\<rparr> w)) = dbCalls w)
   \<and> (CompositeRequestSchema b = Inr c
        \<and> fst (generateComposite e (figureImageBase64 c) (sceneImageBase64 c)
                  (compositePrompt c) True w) = Threw m
       \<longrightarrow> httpStatus (fst (POST Composite e \<lparr>userIdHeader = u, bodyJson = Inr b\<rparr> w)) = 500
           \<and> payload (fst (POST Composite e \<lparr>userIdHeader = u, bodyJson = Inr b\<rparr> w))
               = ErrorBody ''Failed to initiate composite generation'' (Some m)
           \<and> generations (snd (POST Composite e \<lparr>userIdHeader = u, bodyJson = Inr b\<rparr> w))
               = generations w
           \<and> dbCalls (snd (POST Composite e \<lparr>userIdHeader = u, bodyJson = Inr b\<rparr> w))
               = dbCalls w)"
proof (intro conjI impI)
  assume a: "TryOnRequestSchema b = Inr d
      \<and> fst (generateTryOn e (modelImageBase64 d) (clothingImageBase64 d) (prompt d) w) = Threw m"
  note v = TryOnRequestSchema_valid [of b d]
  obtain w1 where g: "generateTryOn e (modelImageBase64 d) (clothingImageBase64 d) (prompt d) w
                        = (Threw m, w1)"
    using a by (cases "generateTryOn e (modelImageBase64 d) (clothingImageBase64 d) (prompt d) w")
      simp
  have w1: "w1 = logCall (ProviderSubmit (modelImageBase64 d) (clothingImageBase64 d) (prompt d)) w"
    using g generateTryOn_frame [of e "modelImageBase64 d" "clothingImageBase64 d" "prompt d" w]
    by simp
  have p: "POST_tryon e \<lparr>userIdHeader = u, bodyJson = Inr b\<rparr> w
             = (corsNextResponse (ErrorBody ''Failed to initiate try-on generation'' (Some m)) 500,
                w1)"
    using a v g by (simp add: POST_tryon_def)
  show "httpStatus (fst (POST TryOn e \<lparr>userIdHeader = u, bodyJson = Inr b\<rparr> w)) = 500"
    using p by (simp add: corsNextResponse_def)
  show "payload (fst (POST TryOn e \<lparr>userIdHeader = u, bodyJson = Inr b\<rparr> w))
          = ErrorBody ''Failed to initiate try-on generation'' (Some m)"
    using p by (simp add: corsNextResponse_def)
  show "generations (snd (POST TryOn e \<lparr>userIdHeader = u, bodyJson = Inr b\<rparr> w)) = generations w"
    using p w1 by simp
  show "dbCalls (snd (POST TryOn e \<lparr>userIdHeader = u, bodyJson = Inr b\<rparr> w)) = dbCalls w"
    using p w1 by simp
next
  assume a: "CompositeRequestSchema b = Inr c
        \<and> fst (generateComposite e (figureImageBase64 c) (sceneImageBase64 c)
                  (compositePrompt c) True w) = Threw m"
  note v = CompositeRequestSchema_valid [of b c]
  let ?G = "generateComposite e (figureImageBase64 c) (sceneImageBase64 c) (compositePrompt c)
              True w"
  obtain w1 where g: "?G = (Threw m, w1)"
    using a by (cases ?G) simp
  have w1: "generations w1 = generations w \<and> dbCalls w1 = dbCalls w"
    using g generateComposite_frame [of e "figureImageBase64 c" "sceneImageBase64 c"
        "compositePrompt c" True w] by simp
  have p: "POST_composite e \<lparr>userIdHeader = u, bodyJson = Inr b\<rparr> w
             = (corsNextResponse
                  (ErrorBody ''Failed to initiate composite generation'' (Some m)) 500, w1)"
    using a v g by (simp add: POST_composite_def)
  show "httpStatus (fst (POST Composite e \<lparr>userIdHeader = u, bodyJson = Inr b\<rparr> w)) = 500"
    using p by (simp add: corsNextResponse_def)
  show "payload (fst (POST Composite e \<lparr>userIdHeader = u, bodyJson = Inr b\<rparr> w))
          = ErrorBody ''Failed to initiate composite generation'' (Some m)"
    using p by (simp add: corsNextResponse_def)
  show "generations (snd (POST Composite e \<lparr>userIdHeader = u, bodyJson = Inr b\<rparr> w))
          = generations w"
    using p w1 by simp
  show "dbCalls (snd (POST Composite e \<lparr>userIdHeader = u, bodyJson = Inr b\<rparr> w)) = dbCalls w"
    using p w1 by simp
qed

text \<open>
  A try-on submission whose request is rejected by the network, and a composite
  submission whose job fails.
\<close>

theorem submit_failure_no_record_witness:
  "TryOnRequestSchema (tryOnBody [JStr ''A person wearing a red jacket''])
     = Inr \<lparr>modelImageBase64 = ''data:image/png;base64,AAAA'',
             clothingImageBase64 = ''data:image/png;base64,BBBB'', modelImageId = None,
             clothingImageId = None, prompt = ''A person wearing a red jacket''\<rparr>
   \<and> fst (generateTryOn (sampleEnv\<lparr>createReply := Rejected ''fetch failed''\<rparr>)
            ''data:image/png;base64,AAAA'' ''data:image/png;base64,BBBB''
            ''A person wearing a red jacket'' (sampleWorld (sampleRow ''processing'')))
       = Threw ''fetch failed''
   \<and> httpStatus (fst (POST TryOn (sampleEnv\<lparr>createReply := Rejected ''fetch failed''\<rparr>)
            \<lparr>userIdHeader = None,
             bodyJson = Inr (tryOnBody [JStr ''A person wearing a red jacket''])\<rparr>
            (sampleWorld (sampleRow ''processing'')))) = 500
   \<and> payload (fst (POST TryOn (sampleEnv\<lparr>createReply := Rejected ''fetch failed''\<rparr>)
            \<lparr>userIdHeader = None,
             bodyJson = Inr (tryOnBody [JStr ''A person wearing a red jacket''])\<rparr>
            (sampleWorld (sampleRow ''processing''))))
       = ErrorBody ''Failed to initiate try-on generation'' (Some ''fetch failed'')
   \<and> generations (snd (POST TryOn (sampleEnv\<lparr>createReply := Rejected ''fetch failed''\<rparr>)
            \<lparr>userIdHeader = None,
             bodyJson = Inr (tryOnBody [JStr ''A person wearing a red jacket''])\<rparr>
            (sampleWorld (sampleRow ''processing''))))
       = generations (sampleWorld (sampleRow ''processing''))
   \<and> fst (generateComposite (reportingEnv (JStr ''failed'') JNull (JStr ''face not detected''))
            ''data:image/png;base64,AAAA'' ''data:image/png;base64,BBBB''
            ''a figure in a park'' True (sampleWorld (sampleRow ''processing'')))
       = Threw ''Prediction failed: face not detected''
   \<and> httpStatus (fst (POST Composite
            (reportingEnv (JStr ''failed'') JNull (JStr ''face not detected''))
            \<lparr>userIdHeader = None, bodyJson = Inr (compositeBody [JStr ''a figure in a park''])\<rparr>
            (sampleWorld (sampleRow ''processing'')))) = 500
   \<and> payload (fst (POST Composite
            (reportingEnv (JStr ''failed'') JNull (JStr ''face not detected''))
            \<lparr>userIdHeader = None, bodyJson = Inr (compositeBody [JStr ''a figure in a park''])\<rparr>
            (sampleWorld (sampleRow ''processing''))))
       = ErrorBody ''Failed to initiate composite generation''
           (Some ''Prediction failed: face not detected'')
   \<and> generations (snd (POST Composite
            (reportingEnv (JStr ''failed'') JNull (JStr ''face not detected''))
            \<lparr>userIdHeader = None, bodyJson = Inr (compositeBody [JStr ''a figure in a park''])\<rparr>
            (sampleWorld (sampleRow ''processing''))))
       = generations (sampleWorld (sampleRow ''processing''))"
proof -
  let ?w = "sampleWorld (sampleRow ''processing'')"
  let ?eT = "sampleEnv\<lparr>createReply := Rejected ''fetch failed''\<rparr>"
  let ?eC = "reportingEnv (JStr ''failed'') JNull (JStr ''face not detected'')"
  let ?dT = "\<lparr>modelImageBase64 = ''data:image/png;base64,AAAA'',
             clothingImageBase64 = ''data:image/png;base64,BBBB'', modelImageId = None,
             clothingImageId = None, prompt = ''A person wearing a red jacket''\<rparr>"
  let ?dC = "\<lparr>figureImageBase64 = ''data:image/png;base64,AAAA'',
             sceneImageBase64 = ''data:image/png;base64,BBBB'', figureImageId = None,
             sceneImageId = None, compositePrompt = ''a figure in a park''\<rparr>"
  have sT: "TryOnRequestSchema (tryOnBody [JStr ''A person wearing a red jacket'']) = Inr ?dT"
    by (simp add: TryOnRequestSchema_def tryOnBody_def zStringMin_def zStringMinMax_def
        zStringOptional_def zDefault_def)
  have sC: "CompositeRequestSchema (compositeBody [JStr ''a figure in a park'']) = Inr ?dC"
    by (simp add: CompositeRequestSchema_def compositeBody_def zStringMin_def zStringMinMax_def
        zStringOptional_def)
  have gT: "fst (generateTryOn ?eT (modelImageBase64 ?dT) (clothingImageBase64 ?dT) (prompt ?dT) ?w)
              = Threw ''fetch failed''"
    by (simp add: generateTryOn_def)
  have gC: "fst (generateComposite ?eC (figureImageBase64 ?dC) (sceneImageBase64 ?dC)
                   (compositePrompt ?dC) True ?w) = Threw ''Prediction failed: face not detected''"
    by (simp add: combiner_eval)
  note T = submit_failure_no_record [of "tryOnBody [JStr ''A person wearing a red jacket'']" ?dT
      ?eT ?w "''fetch failed''" None ?dC, THEN conjunct1, rule_format, OF conjI [OF sT gT]]
  note C = submit_failure_no_record [of "compositeBody [JStr ''a figure in a park'']" ?dT
      ?eC ?w "''Prediction failed: face not detected''" None ?dC, THEN conjunct2, rule_format,
      OF conjI [OF sC gC]]
  show ?thesis
    using sT gT gC T C by simp
qed

section \<open>A submit that succeeds\<close>





end
